theory Spec2Isabelle
  imports Main "HOL-Library.AList" "HOL-Library.Sublist"
begin

section \<open>Documents\<close>

text \<open>
  The server keeps its data in MongoDB collections. A document is an ordered sequence of
  named fields; a field value is a BSON value. Only the value types that the book routes
  and the aggregation examples use are represented. An absent field is \<open>None\<close> of
  \<open>map_of\<close>; \<open>AList.update\<close> overwrites a field in place or appends it,
  \<open>AList.delete\<close> removes it.
\<close>

datatype bson =
    BNull
  | BBool bool
  | BNum int
  | BStr string
  | BOid nat
  | BDate nat
  | BArr "bson list"
  | BDoc "(string \<times> bson) list"

type_synonym document = "(string \<times> bson) list"

text \<open>\<open>"a.b".split(".")\<close> and \<open>header.split(" ")\<close>: JavaScript's \<open>split\<close> on a
  one-character separator. Every occurrence of the separator ends a piece; pieces may be
  empty; the result always has at least one piece.\<close>

fun split_on :: "char \<Rightarrow> string \<Rightarrow> string list" where
  "split_on c [] = [[]]"
| "split_on c (x # xs) =
     (if x = c then [] # split_on c xs
      else (case split_on c xs of
              [] \<Rightarrow> [[x]]
            | p # ps \<Rightarrow> (x # p) # ps))"

text \<open>\<open>xs[i]\<close> in JavaScript: \<open>undefined\<close> (here \<open>None\<close>) out of range.\<close>

fun js_index :: "'a list \<Rightarrow> nat \<Rightarrow> 'a option" where
  "js_index [] i = None"
| "js_index (x # xs) 0 = Some x"
| "js_index (x # xs) (Suc i) = js_index xs i"

section \<open>The aggregation engine\<close>

text \<open>
  \<open>Model.aggregate([...])\<close> hands a list of stages to the database. The stages of
  \<open>listBook\<close> and of the products example are data of the following types; the
  functions below give each stage the meaning MongoDB documents for it. A failing
  expression aborts the whole aggregation: \<open>Inl\<close> carries the error message that the
  controller's \<open>catch\<close> receives.
\<close>

datatype expr =
    FieldPath string          \<comment> \<open>\<open>"$price"\<close>\<close>
  | Const bson            \<comment> \<open>a literal such as \<open>1\<close>\<close>
  | First expr            \<comment> \<open>\<open>{ $first: e }\<close>\<close>

datatype cond =
    Eq bson               \<comment> \<open>\<open>{ path: v }\<close>\<close>
  | Gt bson               \<comment> \<open>\<open>{ path: { $gt: v } }\<close>\<close>

datatype accumulator =
    Sum expr              \<comment> \<open>\<open>{ $sum: e }\<close>\<close>

datatype stage =
    Lookup string string string string "stage list"
      \<comment> \<open>\<open>$lookup\<close>: from, localField, foreignField, as, pipeline\<close>
  | Project "string list"
      \<comment> \<open>\<open>$project\<close> with inclusions \<open>{ f: 1, ... }\<close>\<close>
  | Match string cond
      \<comment> \<open>\<open>$match\<close> on one (dotted) path\<close>
  | Set string expr
      \<comment> \<open>\<open>$set: { f: e }\<close>\<close>
  | Group expr "(string \<times> accumulator) list"
      \<comment> \<open>\<open>$group\<close>: the \<open>_id\<close> expression and the accumulators\<close>
  | Sort string bool
      \<comment> \<open>\<open>$sort: { f: 1 }\<close> (\<open>True\<close>) or \<open>{ f: -1 }\<close> (\<open>False\<close>)\<close>
  | Limit nat

fun traverse :: "('a \<Rightarrow> string + 'b) \<Rightarrow> 'a list \<Rightarrow> string + 'b list" where
  "traverse f [] = Inr []"
| "traverse f (x # xs) =
     (case f x of
        Inl e \<Rightarrow> Inl e
      | Inr y \<Rightarrow> (case traverse f xs of Inl e \<Rightarrow> Inl e | Inr ys \<Rightarrow> Inr (y # ys)))"

text \<open>Expressions. A field path reads a top-level field and is missing (\<open>None\<close>) when the
  document has no such field. \<open>$first\<close> yields the first element of an array, nothing for
  the empty array, null for a null or missing operand, and fails on any other value.\<close>

fun eval_expr :: "expr \<Rightarrow> document \<Rightarrow> string + bson option" where
  "eval_expr (FieldPath f) d = Inr (map_of d f)"
| "eval_expr (Const v) d = Inr (Some v)"
| "eval_expr (First e) d =
     (case eval_expr e d of
        Inl err \<Rightarrow> Inl err
      | Inr None \<Rightarrow> Inr (Some BNull)
      | Inr (Some v) \<Rightarrow>
          (case v of
             BNull \<Rightarrow> Inr (Some BNull)
           | BArr xs \<Rightarrow> (case xs of [] \<Rightarrow> Inr None | x # _ \<Rightarrow> Inr (Some x))
           | _ \<Rightarrow> Inl ''$first's argument must be an array''))"

text \<open>\<open>$set\<close> (and the \<open>as\<close> field of \<open>$lookup\<close>): a value overwrites or adds the field; a
  missing value removes it.\<close>

definition set_field :: "string \<Rightarrow> bson option \<Rightarrow> document \<Rightarrow> document" where
  "set_field f v d = (case v of None \<Rightarrow> AList.delete f d | Some w \<Rightarrow> AList.update f w d)"

text \<open>\<open>$project\<close> with inclusions keeps the listed fields and, since it is not excluded,
  \<open>_id\<close>; the fields keep the order they have in the document.\<close>

definition project_fields :: "string list \<Rightarrow> document \<Rightarrow> document" where
  "project_fields fs d = filter (\<lambda>kv. fst kv = ''_id'' \<or> fst kv \<in> set fs) d"

text \<open>The equality join of \<open>$lookup\<close>. A missing local or foreign field counts as null; a
  local array matches through any of its elements; a foreign array matches as a whole or
  through any of its elements.\<close>

definition lookup_eq :: "bson option \<Rightarrow> bson option \<Rightarrow> bool" where
  "lookup_eq l f =
     (let ls = (case l of None \<Rightarrow> [BNull] | Some v \<Rightarrow> (case v of BArr xs \<Rightarrow> xs | _ \<Rightarrow> [v]));
          fs = (case f of None \<Rightarrow> [BNull] | Some v \<Rightarrow> (case v of BArr ys \<Rightarrow> v # ys | _ \<Rightarrow> [v]))
      in list_ex (\<lambda>x. x \<in> set fs) ls)"

text \<open>The values a query path reaches in a document. A missing field is reported once, as
  \<open>None\<close>. An array met before the end of the path is traversed: the rest of the path is
  followed in each element that is a document, and nothing is reported for other elements
  (so an empty array reports nothing). An array at the end of the path reports its
  elements and itself. Numeric path components (array positions) are not represented.\<close>

fun path_values :: "string list \<Rightarrow> bson \<Rightarrow> bson option list" where
  "path_values [] v = (case v of BArr xs \<Rightarrow> map Some xs @ [Some v] | _ \<Rightarrow> [Some v])"
| "path_values (f # fs) v =
     (case v of
        BDoc d \<Rightarrow>
          (case map_of d f of
             None \<Rightarrow> [None]
           | Some w \<Rightarrow>
               (case w of
                  BArr xs \<Rightarrow>
                    (if fs = [] then map Some xs @ [Some w]
                     else concat (map (\<lambda>x. case x of BDoc _ \<Rightarrow> path_values fs x | _ \<Rightarrow> []) xs))
                | _ \<Rightarrow> path_values fs w))
      | _ \<Rightarrow> [None])"

text \<open>One reached value against one condition. Equality with null also accepts a missing
  field. \<open>$gt\<close> compares values of the same type only; numbers and dates are represented.\<close>

fun elem_matches :: "cond \<Rightarrow> bson option \<Rightarrow> bool" where
  "elem_matches (Eq v) None = (v = BNull)"
| "elem_matches (Eq v) (Some w) = (w = v)"
| "elem_matches (Gt (BNum k)) (Some (BNum n)) = (k < n)"
| "elem_matches (Gt (BDate k)) (Some (BDate n)) = (k < n)"
| "elem_matches (Gt v) w = False"

definition doc_matches :: "string \<Rightarrow> cond \<Rightarrow> document \<Rightarrow> bool" where
  "doc_matches p c d = list_ex (elem_matches c) (path_values (split_on CHR ''.'' p) (BDoc d))"

text \<open>\<open>$group\<close>. The group key of a document is the value of the \<open>_id\<close> expression, null
  when it is missing. Groups are listed in the order in which their keys first occur
  (MongoDB promises no order). \<open>$sum\<close> adds the numeric values and ignores the others.\<close>

definition group_key :: "expr \<Rightarrow> document \<Rightarrow> string + bson" where
  "group_key e d =
     (case eval_expr e d of
        Inl err \<Rightarrow> Inl err
      | Inr None \<Rightarrow> Inr BNull
      | Inr (Some v) \<Rightarrow> Inr v)"

fun first_occurrences :: "'a list \<Rightarrow> 'a list \<Rightarrow> 'a list" where
  "first_occurrences seen [] = []"
| "first_occurrences seen (k # ks) =
     (if k \<in> set seen then first_occurrences seen ks
      else k # first_occurrences (k # seen) ks)"

definition numeric :: "bson option \<Rightarrow> int" where
  "numeric v = (case v of Some (BNum n) \<Rightarrow> n | _ \<Rightarrow> 0)"

fun accumulate :: "accumulator \<Rightarrow> document list \<Rightarrow> string + bson" where
  "accumulate (Sum e) ds =
     (case traverse (eval_expr e) ds of
        Inl err \<Rightarrow> Inl err
      | Inr vs \<Rightarrow> Inr (BNum (sum_list (map numeric vs))))"

definition group_docs ::
  "expr \<Rightarrow> (string \<times> accumulator) list \<Rightarrow> document list \<Rightarrow> string + document list" where
  "group_docs e accs ds =
     (case traverse (group_key e) ds of
        Inl err \<Rightarrow> Inl err
      | Inr keys \<Rightarrow>
          traverse
            (\<lambda>k. case traverse (\<lambda>(name, acc). case accumulate acc (map snd (filter (\<lambda>kd. fst kd = k) (zip keys ds))) of
                                      Inl err \<Rightarrow> Inl err
                                    | Inr v \<Rightarrow> Inr (name, v)) accs of
                   Inl err \<Rightarrow> Inl err
                 | Inr kvs \<Rightarrow> Inr ((''_id'', k) # kvs))
            (first_occurrences [] keys))"

text \<open>\<open>$sort\<close> on one field. Values are ordered by type first (null and missing, numbers,
  strings, documents, arrays, object ids, booleans, dates) and within numbers, object ids,
  booleans and dates by value; other values of one type are left in their order. The sort
  is an insertion sort that keeps equal keys in input order.\<close>

definition type_rank :: "bson option \<Rightarrow> nat" where
  "type_rank v =
     (case v of
        None \<Rightarrow> 0
      | Some w \<Rightarrow>
          (case w of
             BNull \<Rightarrow> 0 | BNum _ \<Rightarrow> 1 | BStr _ \<Rightarrow> 2 | BDoc _ \<Rightarrow> 3 | BArr _ \<Rightarrow> 4
           | BOid _ \<Rightarrow> 5 | BBool _ \<Rightarrow> 6 | BDate _ \<Rightarrow> 7))"

fun same_type_less :: "bson \<Rightarrow> bson \<Rightarrow> bool" where
  "same_type_less (BNum a) (BNum b) = (a < b)"
| "same_type_less (BOid a) (BOid b) = (a < b)"
| "same_type_less (BDate a) (BDate b) = (a < b)"
| "same_type_less (BBool a) (BBool b) = (\<not> a \<and> b)"
| "same_type_less v w = False"

definition bson_less :: "bson option \<Rightarrow> bson option \<Rightarrow> bool" where
  "bson_less a b =
     (type_rank a < type_rank b \<or>
      (type_rank a = type_rank b \<and>
       (case (a, b) of (Some v, Some w) \<Rightarrow> same_type_less v w | _ \<Rightarrow> False)))"

fun insert_sorted :: "('a \<Rightarrow> 'a \<Rightarrow> bool) \<Rightarrow> 'a \<Rightarrow> 'a list \<Rightarrow> 'a list" where
  "insert_sorted lt x [] = [x]"
| "insert_sorted lt x (y # ys) =
     (if lt y x then y # insert_sorted lt x ys else x # y # ys)"

definition sort_docs :: "string \<Rightarrow> bool \<Rightarrow> document list \<Rightarrow> document list" where
  "sort_docs f ascending ds =
     foldr (insert_sorted (\<lambda>a b. if ascending then bson_less (map_of a f) (map_of b f)
                                  else bson_less (map_of b f) (map_of a f))) ds []"

text \<open>A stage maps the documents that reach it to the documents it passes on; \<open>db\<close> gives
  the documents of a collection by name.\<close>

fun run_stage :: "(string \<Rightarrow> document list) \<Rightarrow> stage \<Rightarrow> document list \<Rightarrow> string + document list"
  and run_pipeline :: "(string \<Rightarrow> document list) \<Rightarrow> stage list \<Rightarrow> document list \<Rightarrow> string + document list"
where
  "run_pipeline db [] ds = Inr ds"
| "run_pipeline db (s # ss) ds =
     (case run_stage db s ds of
        Inl e \<Rightarrow> Inl e
      | Inr ds' \<Rightarrow> run_pipeline db ss ds')"
| "run_stage db (Lookup from localField foreignField as sub) ds =
     traverse
       (\<lambda>d. case run_pipeline db sub
                   (filter (\<lambda>f. lookup_eq (map_of d localField) (map_of f foreignField)) (db from)) of
              Inl e \<Rightarrow> Inl e
            | Inr joined \<Rightarrow> Inr (set_field as (Some (BArr (map BDoc joined))) d))
       ds"
| "run_stage db (Project fs) ds = Inr (map (project_fields fs) ds)"
| "run_stage db (Match p c) ds = Inr (filter (doc_matches p c) ds)"
| "run_stage db (Set f e) ds =
     traverse (\<lambda>d. case eval_expr e d of Inl err \<Rightarrow> Inl err | Inr v \<Rightarrow> Inr (set_field f v d)) ds"
| "run_stage db (Group e accs) ds = group_docs e accs ds"
| "run_stage db (Sort f ascending) ds = Inr (sort_docs f ascending ds)"
| "run_stage db (Limit n) ds = Inr (take n ds)"

section \<open>The server state and the book controllers\<close>

text \<open>
  The database as the book routes see it: the \<open>books\<close> collection of the \<open>Book\<close> model and
  the \<open>users\<close> collection that \<open>createdBy\<close> refers to, each in storage order, the next
  object id the driver hands out, and the clock that stamps \<open>createdAt\<close> and \<open>updatedAt\<close>.
\<close>

record server =
  books :: "document list"
  users :: "document list"
  nextId :: nat
  clock :: nat

definition collection :: "server \<Rightarrow> string \<Rightarrow> document list" where
  "collection st name =
     (if name = ''books'' then books st
      else if name = ''users'' then users st
      else [])"

text \<open>\<open>res.status(n).json(v)\<close>, and the error body \<open>{ message: e.message }\<close>.\<close>

datatype reply = Json nat bson

definition message :: "string \<Rightarrow> bson" where
  "message m = BDoc [(''message'', BStr m)]"

text \<open>What a handler reads of the request: \<open>req.params.bookId\<close>, \<open>req.query.name\<close>
  and \<open>req.body\<close>. The query parameter is \<open>None\<close> when the query string has no \<open>name\<close>
  and a string when it has one; a repeated or bracketed \<open>name\<close>, which the query parser
  turns into an array or an object, is not represented. The body is the object that the
  JSON body parser leaves in \<open>req.body\<close>, empty when the request has no body.\<close>

record request =
  bookId :: string
  name_query :: "string option"
  body :: document

text \<open>
  Mongoose casts and validates what a controller passes to it before anything reaches the
  database, and throws when that fails. That code is the library's; the controllers are
  modelled for every behaviour it may have:
  \<^item> \<open>cast_id\<close>: the cast of a path parameter used as \<open>{ _id: bookId }\<close> to an object id;
  \<^item> \<open>cast_book\<close>: cast and validation of \<open>{ name, createdBy }\<close> against \<open>bookschema\<close>
    (both required, a string and an object id);
  \<^item> \<open>cast_update\<close>: the cast of the arguments of \<open>findByIdAndUpdate\<close>, giving the object
    id and the fields to set.
  \<open>Inl\<close> carries the message of the error thrown.
\<close>

record mongoose =
  cast_id :: "string \<Rightarrow> string + nat"
  cast_book :: "bson option \<Rightarrow> bson option \<Rightarrow> string + (string \<times> nat)"
  cast_update :: "string \<Rightarrow> document \<Rightarrow> string + (nat \<times> document)"

subsection \<open>addBook\<close>

text \<open>\<open>Book.create\<close>: the new document gets the next object id, both timestamps and the
  version key, and is appended to the collection.\<close>

definition Book_create ::
  "mongoose \<Rightarrow> bson option \<Rightarrow> bson option \<Rightarrow> server \<Rightarrow> string + (document \<times> server)" where
  "Book_create mg name createdBy st =
     (case cast_book mg name createdBy of
        Inl e \<Rightarrow> Inl e
      | Inr (n, c) \<Rightarrow>
          (let book = [(''name'', BStr n), (''createdBy'', BOid c), (''_id'', BOid (nextId st)),
                       (''createdAt'', BDate (clock st)), (''updatedAt'', BDate (clock st)),
                       (''__v'', BNum 0)]
           in Inr (book, st\<lparr>books := books st @ [book], nextId := Suc (nextId st)\<rparr>)))"

definition addBook :: "mongoose \<Rightarrow> request \<Rightarrow> server \<Rightarrow> reply \<times> server" where
  "addBook mg req st =
     (let name = map_of (body req) ''name'';
          createdBy = map_of (body req) ''createdBy''
      in case Book_create mg name createdBy st of
           Inr (book, st') \<Rightarrow> (Json 200 (BDoc book), st')
         | Inl e \<Rightarrow> (Json 400 (message e), st))"

subsection \<open>getBookList\<close>

definition getBookList :: "request \<Rightarrow> server \<Rightarrow> reply \<times> server" where
  "getBookList req st = (Json 200 (BArr (map BDoc (books st))), st)"

subsection \<open>deleteBook\<close>

text \<open>\<open>deleteOne\<close> removes the first document that matches and reports how many it removed.\<close>

fun deleteOne :: "('a \<Rightarrow> bool) \<Rightarrow> 'a list \<Rightarrow> nat \<times> 'a list" where
  "deleteOne p [] = (0, [])"
| "deleteOne p (d # ds) =
     (if p d then (1, ds)
      else (case deleteOne p ds of (n, ds') \<Rightarrow> (n, d # ds')))"

definition deleteBook :: "mongoose \<Rightarrow> request \<Rightarrow> server \<Rightarrow> reply \<times> server" where
  "deleteBook mg req st =
     (case cast_id mg (bookId req) of
        Inl e \<Rightarrow> (Json 400 (message e), st)
      | Inr i \<Rightarrow>
          (case deleteOne (doc_matches ''_id'' (Eq (BOid i))) (books st) of
             (n, bs) \<Rightarrow>
               (Json 200 (BDoc [(''acknowledged'', BBool True), (''deletedCount'', BNum (int n))]),
                st\<lparr>books := bs\<rparr>)))"

subsection \<open>updateBook\<close>

text \<open>\<open>findByIdAndUpdate(id, update, { new: true })\<close>: the first document with that id gets
  the fields of the update and a new \<open>updatedAt\<close>, and is returned as updated; \<open>None\<close> is
  the \<open>null\<close> returned when no document has the id. The database refuses an update that
  would change the \<open>_id\<close> of the document it found.\<close>

fun replace_first :: "('a \<Rightarrow> bool) \<Rightarrow> ('a \<Rightarrow> 'a) \<Rightarrow> 'a list \<Rightarrow> ('a \<times> 'a list) option" where
  "replace_first p f [] = None"
| "replace_first p f (d # ds) =
     (if p d then Some (f d, f d # ds)
      else (case replace_first p f ds of
              None \<Rightarrow> None
            | Some (d', ds') \<Rightarrow> Some (d', d # ds')))"

definition apply_update :: "document \<Rightarrow> nat \<Rightarrow> document \<Rightarrow> document" where
  "apply_update upd now d =
     AList.update ''updatedAt'' (BDate now)
       (foldl (\<lambda>acc kv. AList.update (fst kv) (snd kv) acc) d upd)"

definition findByIdAndUpdate ::
  "nat \<Rightarrow> document \<Rightarrow> server \<Rightarrow> string + ((document \<times> server) option)" where
  "findByIdAndUpdate i upd st =
     (case replace_first (doc_matches ''_id'' (Eq (BOid i))) (apply_update upd (clock st)) (books st) of
        None \<Rightarrow> Inr None
      | Some (d, bs) \<Rightarrow>
          (if map_of upd ''_id'' \<noteq> None \<and> map_of upd ''_id'' \<noteq> Some (BOid i)
           then Inl ''Performing an update on the path _id would modify the immutable field _id''
           else Inr (Some (d, st\<lparr>books := bs\<rparr>))))"

definition updateBook :: "mongoose \<Rightarrow> request \<Rightarrow> server \<Rightarrow> reply \<times> server" where
  "updateBook mg req st =
     (case cast_update mg (bookId req) (body req) of
        Inl e \<Rightarrow> (Json 400 (message e), st)
      | Inr (i, upd) \<Rightarrow>
          (case findByIdAndUpdate i upd st of
             Inl e \<Rightarrow> (Json 400 (message e), st)
           | Inr None \<Rightarrow> (Json 404 (message ''Book not found''), st)
           | Inr (Some (book, st')) \<Rightarrow> (Json 200 (BDoc book), st')))"

subsection \<open>updateOnlyOneBook\<close>

text \<open>\<open>Book.findOne({ name: bookId }).populate([{ path: 'createdBy', select: 'name' }])
  .select('-name')\<close>. \<open>findOne\<close> gives the first matching document in storage order;
  \<open>select('-name')\<close> drops the book's \<open>name\<close>; \<open>populate\<close> replaces an object id in
  \<open>createdBy\<close> by the user document with that \<open>_id\<close>, reduced to the selected fields (and
  \<open>_id\<close>), or by null when there is no such user.\<close>

definition findOne :: "string \<Rightarrow> bson \<Rightarrow> document list \<Rightarrow> document option" where
  "findOne p v ds = find (doc_matches p (Eq v)) ds"

definition populate :: "document list \<Rightarrow> string \<Rightarrow> string list \<Rightarrow> document \<Rightarrow> document" where
  "populate foreign p sel d =
     (case map_of d p of
        Some (BOid i) \<Rightarrow>
          AList.update p
            (case findOne ''_id'' (BOid i) foreign of
               None \<Rightarrow> BNull
             | Some u \<Rightarrow> BDoc (project_fields sel u))
            d
      | _ \<Rightarrow> d)"

definition updateOnlyOneBook :: "request \<Rightarrow> server \<Rightarrow> reply \<times> server" where
  "updateOnlyOneBook req st =
     (case findOne ''name'' (BStr (bookId req)) (books st) of
        None \<Rightarrow> (Json 404 (message ''Book not found''), st)
      | Some b \<Rightarrow>
          (Json 200 (BDoc (populate (users st) ''createdBy'' [''name''] (AList.delete ''name'' b))), st))"

subsection \<open>listBook\<close>

text \<open>The driver writes a JavaScript \<open>undefined\<close> inside a command as BSON null (its
  \<open>ignoreUndefined\<close> option is off unless asked for), so an absent \<open>name\<close> reaches the
  \<open>$match\<close> stage as null. The \<open>$lookup\<close> stage gives the equality fields together
  with a pipeline, which the database runs on the users that the equality selects.\<close>

definition serialize :: "string option \<Rightarrow> bson" where
  "serialize v = (case v of None \<Rightarrow> BNull | Some s \<Rightarrow> BStr s)"

definition listBook_pipeline :: "string option \<Rightarrow> stage list" where
  "listBook_pipeline name =
     [Lookup ''users'' ''createdBy'' ''_id'' ''createdBy'' [Project [''name'']],
      Match ''createdBy.name'' (Eq (serialize name)),
      Set ''createdBy'' (First (FieldPath ''createdBy''))]"

definition aggregate :: "server \<Rightarrow> string \<Rightarrow> stage list \<Rightarrow> string + document list" where
  "aggregate st coll stages = run_pipeline (collection st) stages (collection st coll)"

definition listBook :: "request \<Rightarrow> server \<Rightarrow> reply \<times> server" where
  "listBook req st =
     (case aggregate st ''books'' (listBook_pipeline (name_query req)) of
        Inr book \<Rightarrow> (Json 200 (BArr (map BDoc book)), st)
      | Inl e \<Rightarrow> (Json 400 (message e), st))"

section \<open>The book routes\<close>

text \<open>\<open>middle\<close>, the hook in front of \<open>addBook\<close>: it throws on the name \<open>'book1'\<close>, catches
  its own error and passes it to \<open>next\<close>; otherwise it calls \<open>next()\<close>. The comparison is
  \<open>===\<close>, true only for the string itself.\<close>

datatype flow = Next | NextError string

definition middle :: "request \<Rightarrow> flow" where
  "middle req =
     (if map_of (body req) ''name'' = Some (BStr ''book1'') then NextError ''invalid request''
      else Next)"

text \<open>What becomes of a request to the router mounted at \<open>/books\<close>: a handler replied, an
  error went to the framework's error handler, or no route took the request. The path is
  given by its segments after \<open>/books\<close>, written without percent escapes, a trailing
  slash not counting. Routes are tried in the order they are declared. The router is
  made by \<open>express.Router()\<close> without options, so the literal routes \<open>/add\<close> and \<open>/list\<close>
  match in any letter case; \<open>/:bookId\<close> binds one non-empty segment, as it is written.\<close>

datatype outcome = Replied reply | ErrorHandler string | NotRouted

datatype verb = GET | POST | PATCH | DELETE

definition replied :: "reply \<times> server \<Rightarrow> outcome \<times> server" where
  "replied r = (Replied (fst r), snd r)"

definition ascii_lower :: "char \<Rightarrow> char" where
  "ascii_lower c =
     (case map_of (zip ''ABCDEFGHIJKLMNOPQRSTUVWXYZ'' ''abcdefghijklmnopqrstuvwxyz'') c of
        None \<Rightarrow> c
      | Some l \<Rightarrow> l)"

text \<open>A path matches a literal route of one segment, given in lower case.\<close>

definition route_is :: "string \<Rightarrow> string list \<Rightarrow> bool" where
  "route_is literal path = (case path of [p] \<Rightarrow> map ascii_lower p = literal | _ \<Rightarrow> False)"

definition bookRoutes ::
  "mongoose \<Rightarrow> verb \<Rightarrow> string list \<Rightarrow> request \<Rightarrow> server \<Rightarrow> outcome \<times> server" where
  "bookRoutes mg m path req st =
     (if route_is ''add'' path \<and> m = POST then
        (case middle req of
           NextError e \<Rightarrow> (ErrorHandler e, st)
         | Next \<Rightarrow> replied (addBook mg req st))
      else if path = [] \<and> m = GET then replied (getBookList req st)
      else if route_is ''list'' path \<and> m = GET then replied (listBook req st)
      else (case path of
              [p] \<Rightarrow>
                (if p = [] then (NotRouted, st)
                 else (case m of
                         DELETE \<Rightarrow> replied (deleteBook mg (req\<lparr>bookId := p\<rparr>) st)
                       | PATCH \<Rightarrow> replied (updateBook mg (req\<lparr>bookId := p\<rparr>) st)
                       | GET \<Rightarrow> replied (updateOnlyOneBook (req\<lparr>bookId := p\<rparr>) st)
                       | POST \<Rightarrow> (NotRouted, st)))
            | _ \<Rightarrow> (NotRouted, st)))"

section \<open>The auth middleware\<close>

text \<open>
  \<open>authMiddleware\<close> reads the \<open>Authorization\<close> header (\<open>None\<close> when the request has none),
  and either answers itself or sets \<open>req.user\<close> and calls \<open>next\<close>. \<open>jwt.verify\<close> is the
  token library's: it is a parameter, \<open>None\<close> when it throws, and every call of it is
  recorded with the token it was given (\<open>None\<close> for \<open>undefined\<close>, on which it throws).
  The run records what the middleware did, and the database state it leaves.
\<close>

record 'c auth_run =
  sent :: "reply option"
  req_user :: "'c option"
  next_called :: bool
  verified :: "string option list"
  store :: server

definition access_denied :: "server \<Rightarrow> 'c auth_run" where
  "access_denied st =
     \<lparr>sent = Some (Json 401 (message ''Access denied. No token provided.'')),
      req_user = None, next_called = False, verified = [], store = st\<rparr>"

definition authMiddleware ::
  "(string \<Rightarrow> string \<Rightarrow> 'c option) \<Rightarrow> string option \<Rightarrow> server \<Rightarrow> 'c auth_run" where
  "authMiddleware jwt_verify authHeader st =
     (case authHeader of
        None \<Rightarrow> access_denied st
      | Some h \<Rightarrow>
          (if h = [] \<or> \<not> prefix ''Bearer '' h then access_denied st
           else
             (let token = js_index (split_on CHR '' '' h) 1
              in case (case token of None \<Rightarrow> None | Some t \<Rightarrow> jwt_verify t ''yourSecretKey'') of
                   Some decoded \<Rightarrow>
                     \<lparr>sent = None, req_user = Some decoded, next_called = True,
                      verified = [token], store = st\<rparr>
                 | None \<Rightarrow>
                     \<lparr>sent = Some (Json 400 (message ''Invalid token.'')),
                      req_user = None, next_called = False, verified = [token], store = st\<rparr>)))"

section \<open>The products aggregation example\<close>

text \<open>The stages of the documented \<open>db.products.aggregate\<close> call.\<close>

definition match_price :: stage where
  "match_price = Match ''price'' (Gt (BNum 10))"

definition group_by_price :: stage where
  "group_by_price =
     Group (FieldPath ''price'')
       [(''totalQuantity'', Sum (FieldPath ''quantity'')), (''count'', Sum (Const (BNum 1)))]"

definition sort_by_totalQuantity :: stage where
  "sort_by_totalQuantity = Sort ''totalQuantity'' False"

definition products_pipeline :: "stage list" where
  "products_pipeline = [match_price, group_by_price, sort_by_totalQuantity, Limit 2]"

definition products_sample :: "document list" where
  "products_sample =
     [[(''_id'', BNum 1), (''price'', BNum 10), (''quantity'', BNum 5)],
      [(''_id'', BNum 2), (''price'', BNum 20), (''quantity'', BNum 2)],
      [(''_id'', BNum 3), (''price'', BNum 10), (''quantity'', BNum 8)],
      [(''_id'', BNum 4), (''price'', BNum 15), (''quantity'', BNum 3)],
      [(''_id'', BNum 5), (''price'', BNum 20), (''quantity'', BNum 7)]]"

section \<open>Schema conformance\<close>

text \<open>
  What the schemas and the database guarantee of stored documents, as far as the
  properties below need it: every document has an object id as \<open>_id\<close>, no two documents
  of a collection share it, and the \<open>name\<close> and \<open>createdBy\<close> paths (a string and an object
  id in the schemas) never hold arrays.
\<close>

definition is_array :: "bson option \<Rightarrow> bool" where
  "is_array v = (case v of Some (BArr _) \<Rightarrow> True | _ \<Rightarrow> False)"

definition has_oid :: "document \<Rightarrow> bool" where
  "has_oid d = (case map_of d ''_id'' of Some (BOid _) \<Rightarrow> True | _ \<Rightarrow> False)"

definition book_shape :: "document \<Rightarrow> bool" where
  "book_shape b = (has_oid b \<and> \<not> is_array (map_of b ''name'') \<and> \<not> is_array (map_of b ''createdBy''))"

definition user_shape :: "document \<Rightarrow> bool" where
  "user_shape u = (has_oid u \<and> \<not> is_array (map_of u ''name''))"

definition unique_ids :: "document list \<Rightarrow> bool" where
  "unique_ids ds = distinct (map (\<lambda>d. map_of d ''_id'') ds)"

definition conforms :: "server \<Rightarrow> bool" where
  "conforms st =
     (list_all book_shape (books st) \<and> unique_ids (books st) \<and>
      list_all user_shape (users st) \<and> unique_ids (users st))"

text \<open>Two more conditions, under which the controllers keep a database conforming: the
  ids of the books are below the next id to be handed out, and Mongoose's cast of an
  update keeps only the schema's paths \<open>name\<close> and \<open>createdBy\<close>, without arrays.\<close>

definition ids_below :: "server \<Rightarrow> bool" where
  "ids_below st =
     list_all (\<lambda>b. case map_of b ''_id'' of Some (BOid i) \<Rightarrow> i < nextId st | _ \<Rightarrow> True) (books st)"

definition schema_update :: "mongoose \<Rightarrow> bool" where
  "schema_update mg =
     (\<forall>s b i upd. cast_update mg s b = Inr (i, upd) \<longrightarrow>
        list_all (\<lambda>kv. (fst kv = ''name'' \<or> fst kv = ''createdBy'') \<and> \<not> is_array (Some (snd kv))) upd)"

definition has_id :: "nat \<Rightarrow> document \<Rightarrow> bool" where
  "has_id i d = (map_of d ''_id'' = Some (BOid i))"

definition named :: "document \<Rightarrow> bool" where
  "named u = (case map_of u ''name'' of Some (BStr _) \<Rightarrow> True | _ \<Rightarrow> False)"

section \<open>The list view as the specification describes it\<close>

text \<open>
  The three stages in the specification's words, to be compared with what \<open>listBook\<close>
  computes. \<open>keep\<close> names the fields to which the join stage restricts a joined user.
  Join: the book gains, in \<open>createdBy\<close>, the users whose \<open>_id\<close> is the book's \<open>createdBy\<close>,
  each restricted to \<open>keep\<close>. Filter: some joined user has exactly the name asked for.
  Collapse: the joined sequence is replaced by its first element, and is absent when the
  sequence is empty.
\<close>

definition restrict_to :: "string list \<Rightarrow> document \<Rightarrow> document" where
  "restrict_to keep u = filter (\<lambda>kv. fst kv \<in> set keep) u"

definition join_stage :: "string list \<Rightarrow> document list \<Rightarrow> document \<Rightarrow> document" where
  "join_stage keep us b =
     AList.update ''createdBy''
       (BArr (map (\<lambda>u. BDoc (restrict_to keep u))
                (filter (\<lambda>u. map_of u ''_id'' = map_of b ''createdBy'') us)))
       b"

definition filter_stage :: "string \<Rightarrow> document \<Rightarrow> bool" where
  "filter_stage v b =
     (case map_of b ''createdBy'' of
        Some (BArr js) \<Rightarrow>
          list_ex (\<lambda>j. case j of BDoc u \<Rightarrow> map_of u ''name'' = Some (BStr v) | _ \<Rightarrow> False) js
      | _ \<Rightarrow> False)"

definition collapse_stage :: "document \<Rightarrow> document" where
  "collapse_stage b =
     (case map_of b ''createdBy'' of
        Some (BArr js) \<Rightarrow>
          (case js of
             [] \<Rightarrow> AList.delete ''createdBy'' b
           | j # _ \<Rightarrow> AList.update ''createdBy'' j b)
      | _ \<Rightarrow> b)"

definition listWithRelationFilter :: "string list \<Rightarrow> string \<Rightarrow> server \<Rightarrow> document list" where
  "listWithRelationFilter keep v st =
     map collapse_stage (filter (filter_stage v) (map (join_stage keep (users st)) (books st)))"

text \<open>The pipeline of \<open>listBook\<close> with its filter stage taken out.\<close>

definition is_match :: "stage \<Rightarrow> bool" where
  "is_match s = (case s of Match _ _ \<Rightarrow> True | _ \<Rightarrow> False)"

definition unfiltered_pipeline :: "string option \<Rightarrow> stage list" where
  "unfiltered_pipeline name = filter (\<lambda>s. \<not> is_match s) (listBook_pipeline name)"

text \<open>What the \<open>$lookup\<close> stage of \<open>listBook\<close> makes of one book, and \<open>listBook\<close> run on
  the pipeline without its filter stage.\<close>

definition lookup_users :: "document list \<Rightarrow> document \<Rightarrow> document" where
  "lookup_users us d =
     AList.update ''createdBy''
       (BArr (map BDoc (map (project_fields [''name''])
          (filter (\<lambda>f. lookup_eq (map_of d ''createdBy'') (map_of f ''_id'')) us)))) d"

definition listBook_unfiltered :: "request \<Rightarrow> server \<Rightarrow> reply \<times> server" where
  "listBook_unfiltered req st =
     (case aggregate st ''books'' (unfiltered_pipeline (name_query req)) of
        Inr book \<Rightarrow> (Json 200 (BArr (map BDoc book)), st)
      | Inl e \<Rightarrow> (Json 400 (message e), st))"

section \<open>Sample data\<close>

text \<open>A small database: three books, two users; the third book refers to a user that
  does not exist.\<close>

definition sample_server :: server where
  "sample_server =
     \<lparr>books = [[(''name'', BStr ''Dune''), (''createdBy'', BOid 1), (''_id'', BOid 10)],
               [(''name'', BStr ''Emma''), (''createdBy'', BOid 2), (''_id'', BOid 11)],
               [(''name'', BStr ''Ulysses''), (''createdBy'', BOid 7), (''_id'', BOid 12)]],
      users = [[(''_id'', BOid 1), (''name'', BStr ''ann''), (''email'', BStr ''ann@example.org'')],
               [(''_id'', BOid 2), (''name'', BStr ''bob''), (''email'', BStr ''bob@example.org'')]],
      nextId = 20, clock = 5\<rparr>"

text \<open>The three product documents of the grouping property.\<close>

definition products_claim :: "document list" where
  "products_claim =
     [[(''id'', BNum 1), (''price'', BNum 10), (''quantity'', BNum 5)],
      [(''id'', BNum 2), (''price'', BNum 10), (''quantity'', BNum 8)],
      [(''id'', BNum 3), (''price'', BNum 20), (''quantity'', BNum 2)]]"

text \<open>A Mongoose for the examples. Object ids are written with 24 hexadecimal digits; a
  book needs a non-empty string as name and such an id as \<open>createdBy\<close>; an update keeps
  the \<open>name\<close> and \<open>createdBy\<close> paths of the schema.\<close>

definition hex_digit :: "char \<Rightarrow> nat option" where
  "hex_digit c =
     (let n = (of_char c :: nat)
      in if 48 \<le> n \<and> n \<le> 57 then Some (n - 48)
         else if 97 \<le> n \<and> n \<le> 102 then Some (n - 87)
         else if 65 \<le> n \<and> n \<le> 70 then Some (n - 55)
         else None)"

fun parse_hex :: "nat \<Rightarrow> string \<Rightarrow> nat option" where
  "parse_hex acc [] = Some acc"
| "parse_hex acc (c # cs) =
     (case hex_digit c of None \<Rightarrow> None | Some d \<Rightarrow> parse_hex (16 * acc + d) cs)"

definition sample_cast_id :: "string \<Rightarrow> string + nat" where
  "sample_cast_id s =
     (if length s = 24 then
        (case parse_hex 0 s of
           Some i \<Rightarrow> Inr i
         | None \<Rightarrow> Inl ''Cast to ObjectId failed'')
      else Inl ''Cast to ObjectId failed'')"

definition sample_cast_book :: "bson option \<Rightarrow> bson option \<Rightarrow> string + (string \<times> nat)" where
  "sample_cast_book name createdBy =
     (case (name, createdBy) of
        (Some (BStr n), Some (BStr c)) \<Rightarrow>
          (if n = [] then Inl ''Book validation failed''
           else (case sample_cast_id c of
                   Inr i \<Rightarrow> Inr (n, i)
                 | Inl e \<Rightarrow> Inl ''Book validation failed''))
      | _ \<Rightarrow> Inl ''Book validation failed'')"

definition sample_cast_field :: "string \<times> bson \<Rightarrow> string + (string \<times> bson)" where
  "sample_cast_field kv =
     (case snd kv of
        BStr s \<Rightarrow>
          (if fst kv = ''createdBy'' then
             (case sample_cast_id s of Inr i \<Rightarrow> Inr (fst kv, BOid i) | Inl e \<Rightarrow> Inl e)
           else Inr kv)
      | _ \<Rightarrow> Inl ''Cast failed'')"

definition sample_cast_update :: "string \<Rightarrow> document \<Rightarrow> string + (nat \<times> document)" where
  "sample_cast_update s upd =
     (case sample_cast_id s of
        Inl e \<Rightarrow> Inl e
      | Inr i \<Rightarrow>
          (case traverse sample_cast_field
                  (filter (\<lambda>kv. fst kv = ''name'' \<or> fst kv = ''createdBy'') upd) of
             Inl e \<Rightarrow> Inl e
           | Inr kvs \<Rightarrow> Inr (i, kvs)))"

definition sample_mongoose :: mongoose where
  "sample_mongoose =
     \<lparr>cast_id = sample_cast_id, cast_book = sample_cast_book, cast_update = sample_cast_update\<rparr>"

text \<open>A token library for the examples: one token verifies under the server's secret.\<close>

definition sample_verify :: "string \<Rightarrow> string \<Rightarrow> document option" where
  "sample_verify token secret =
     (if token = ''good.token'' \<and> secret = ''yourSecretKey''
      then Some [(''id'', BOid 1), (''email'', BStr ''ann@example.org'')]
      else None)"

section \<open>The remaining operations as the specification describes them\<close>

text \<open>The replies of the specification: not found is status 404.\<close>

definition not_found :: "reply \<Rightarrow> bool" where
  "not_found r = (case r of Json code _ \<Rightarrow> code = 404)"

text \<open>Read-one in the specification's words: the relation \<open>createdBy\<close> of a book is
  replaced by the user it refers to, restricted to the fields \<open>keep\<close>, or by null when no
  user has that id.\<close>

definition with_creator :: "string list \<Rightarrow> document list \<Rightarrow> document \<Rightarrow> document" where
  "with_creator keep us b =
     (case map_of b ''createdBy'' of
        Some (BOid i) \<Rightarrow>
          AList.update ''createdBy''
            (case find (has_id i) us of
               None \<Rightarrow> BNull
             | Some u \<Rightarrow> BDoc (restrict_to keep u))
            b
      | _ \<Rightarrow> b)"

definition read_by_name :: "string list \<Rightarrow> string \<Rightarrow> server \<Rightarrow> reply \<times> server" where
  "read_by_name keep p st =
     (case find (\<lambda>b. map_of b ''name'' = Some (BStr p)) (books st) of
        None \<Rightarrow> (Json 404 (message ''Book not found''), st)
      | Some b \<Rightarrow>
          (Json 200 (BDoc (with_creator keep (users st) (AList.delete ''name'' b))), st))"

text \<open>A created book without the fields the server assigns.\<close>

definition without_assigned :: "reply \<Rightarrow> reply" where
  "without_assigned r =
     (case r of
        Json code v \<Rightarrow>
          (case v of
             BDoc d \<Rightarrow>
               Json code (BDoc (filter (\<lambda>kv. fst kv \<noteq> ''_id'' \<and> fst kv \<noteq> ''createdAt'' \<and>
                                              fst kv \<noteq> ''updatedAt'') d))
           | _ \<Rightarrow> r))"

text \<open>The token that the specification has the middleware verify: all of the header after
  the prefix.\<close>

definition after_prefix :: "string \<Rightarrow> string" where
  "after_prefix h = drop (length ''Bearer '') h"

section \<open>Basic facts\<close>

lemma traverse_total:
  "(\<And>x. x \<in> set xs \<Longrightarrow> f x = Inr (g x)) \<Longrightarrow> traverse f xs = Inr (map g xs)"
  by (induction xs) simp_all

lemma map_of_restrict_to:
  "map_of (restrict_to keep u) k = (if k \<in> set keep then map_of u k else None)"
  by (induction u) (auto simp: restrict_to_def)

lemma map_of_project_fields:
  "map_of (project_fields fs u) k = (if k = ''_id'' \<or> k \<in> set fs then map_of u k else None)"
  by (induction u) (auto simp: project_fields_def)

lemma split_createdBy_name: "split_on CHR ''.'' ''createdBy.name'' = [''createdBy'', ''name'']"
  by simp

lemma split_id: "split_on CHR ''.'' ''_id'' = [''_id'']"
  by simp

lemma split_name: "split_on CHR ''.'' ''name'' = [''name'']"
  by simp

lemma conforms_sample: "conforms sample_server"
  by (simp add: conforms_def sample_server_def book_shape_def user_shape_def has_oid_def
        is_array_def unique_ids_def)

section \<open>The stages of listBook\<close>

lemma run_lookup:
  "run_stage db (Lookup ''users'' ''createdBy'' ''_id'' ''createdBy'' [Project [''name'']]) ds =
     Inr (map (lookup_users (db ''users'')) ds)"
  by (simp add: traverse_total [where g = "lookup_users (db ''users'')"] lookup_users_def
        set_field_def)

lemma run_match: "run_stage db (Match p c) ds = Inr (filter (doc_matches p c) ds)"
  by simp

lemma run_set_first:
  assumes "\<And>d. d \<in> set ds \<Longrightarrow> is_array (map_of d ''createdBy'')"
  shows "run_stage db (Set ''createdBy'' (First (FieldPath ''createdBy''))) ds =
           Inr (map collapse_stage ds)"
proof -
  have "(case eval_expr (First (FieldPath ''createdBy'')) d of
           Inl err \<Rightarrow> Inl err
         | Inr v \<Rightarrow> Inr (set_field ''createdBy'' v d)) = Inr (collapse_stage d)"
    if "d \<in> set ds" for d
    using assms [OF that]
    by (auto simp: is_array_def collapse_stage_def set_field_def
          split: option.splits bson.splits list.splits)
  then show ?thesis
    by (simp add: traverse_total [where g = collapse_stage])
qed

lemma lookup_users_array: "is_array (map_of (lookup_users us d) ''createdBy'')"
  by (simp add: lookup_users_def is_array_def update_conv')

lemma lookup_users_values:
  "map_of (lookup_users us d) ''createdBy'' =
     Some (BArr (map BDoc (map (project_fields [''name''])
          (filter (\<lambda>f. lookup_eq (map_of d ''createdBy'') (map_of f ''_id'')) us))))"
  by (simp add: lookup_users_def update_conv')

text \<open>The aggregation of \<open>listBook\<close> never fails, and is the composition of its stages.\<close>

lemma listBook_stages:
  "aggregate st ''books'' (listBook_pipeline name) =
     Inr (map collapse_stage
           (filter (doc_matches ''createdBy.name'' (Eq (serialize name)))
              (map (lookup_users (users st)) (books st))))"
proof -
  let ?joined = "map (lookup_users (users st)) (books st)"
  let ?kept = "filter (doc_matches ''createdBy.name'' (Eq (serialize name))) ?joined"
  have "\<And>d. d \<in> set ?kept \<Longrightarrow> is_array (map_of d ''createdBy'')"
    by (auto simp: lookup_users_array)
  then have "run_stage (collection st) (Set ''createdBy'' (First (FieldPath ''createdBy''))) ?kept =
      Inr (map collapse_stage ?kept)"
    by (rule run_set_first)
  then show ?thesis
    by (simp only: aggregate_def listBook_pipeline_def run_pipeline.simps run_lookup run_match
          collection_def sum.case)
      simp
qed

lemma lookup_eq_oid:
  "map_of u ''_id'' = Some (BOid i) \<Longrightarrow> \<not> is_array l \<Longrightarrow>
   lookup_eq l (map_of u ''_id'') = (map_of u ''_id'' = l)"
  by (auto simp: lookup_eq_def is_array_def split: option.splits bson.splits)

lemma project_name_restrict: "project_fields [''name''] u = restrict_to [''_id'', ''name''] u"
  by (auto simp: project_fields_def restrict_to_def intro: filter_cong)

lemma lookup_users_join:
  assumes "list_all user_shape us" and "\<not> is_array (map_of b ''createdBy'')"
  shows "lookup_users us b = join_stage [''_id'', ''name''] us b"
proof -
  have "filter (\<lambda>f. lookup_eq (map_of b ''createdBy'') (map_of f ''_id'')) us =
        filter (\<lambda>u. map_of u ''_id'' = map_of b ''createdBy'') us"
  proof (rule filter_cong [OF refl])
    fix u assume "u \<in> set us"
    with assms(1) have "has_oid u" by (simp add: list_all_iff user_shape_def)
    then obtain i where "map_of u ''_id'' = Some (BOid i)"
      by (auto simp: has_oid_def split: option.splits bson.splits)
    then show "lookup_eq (map_of b ''createdBy'') (map_of u ''_id'') =
               (map_of u ''_id'' = map_of b ''createdBy'')"
      using assms(2) by (rule lookup_eq_oid)
  qed
  then show ?thesis
    by (simp add: lookup_users_def join_stage_def project_name_restrict comp_def)
qed

lemma name_values:
  "\<not> is_array (map_of u ''name'') \<Longrightarrow>
   (\<exists>x\<in>set (path_values [''name''] (BDoc u)). elem_matches (Eq (BStr v)) x) =
   (map_of u ''name'' = Some (BStr v))"
  by (auto simp: is_array_def split: option.splits bson.splits)

lemma joined_values:
  "map_of d ''createdBy'' = Some (BArr (map BDoc js)) \<Longrightarrow>
   path_values [''createdBy'', ''name''] (BDoc d) =
     concat (map (\<lambda>u. path_values [''name''] (BDoc u)) js)"
  by (simp add: comp_def)

lemma match_joined_name:
  assumes "map_of d ''createdBy'' = Some (BArr (map BDoc js))"
    and "\<And>u. u \<in> set js \<Longrightarrow> \<not> is_array (map_of u ''name'')"
  shows "doc_matches ''createdBy.name'' (Eq (BStr v)) d = filter_stage v d"
proof -
  have "doc_matches ''createdBy.name'' (Eq (BStr v)) d =
        (\<exists>u\<in>set js. \<exists>x\<in>set (path_values [''name''] (BDoc u)). elem_matches (Eq (BStr v)) x)"
    by (simp only: doc_matches_def split_createdBy_name joined_values [OF assms(1)] list_ex_iff)
      auto
  also have "\<dots> = (\<exists>u\<in>set js. map_of u ''name'' = Some (BStr v))"
    using assms(2) by (simp add: name_values del: path_values.simps)
  also have "\<dots> = filter_stage v d"
    by (simp add: filter_stage_def assms(1) list_ex_iff)
  finally show ?thesis .
qed

lemma join_stage_array:
  "map_of (join_stage keep us b) ''createdBy'' =
     Some (BArr (map BDoc (map (restrict_to keep)
        (filter (\<lambda>u. map_of u ''_id'' = map_of b ''createdBy'') us))))"
  by (simp add: join_stage_def update_conv' comp_def)

lemma named_values:
  "named u \<Longrightarrow>
   \<not> (\<exists>x\<in>set (path_values [''name''] (BDoc (project_fields [''name''] u))).
        elem_matches (Eq BNull) x)"
  by (auto simp: named_def map_of_project_fields split: option.splits bson.splits)

lemma null_drops_named:
  assumes "list_all named us"
  shows "\<not> doc_matches ''createdBy.name'' (Eq BNull) (lookup_users us d)"
proof -
  let ?js = "map (project_fields [''name''])
               (filter (\<lambda>f. lookup_eq (map_of d ''createdBy'') (map_of f ''_id'')) us)"
  have "doc_matches ''createdBy.name'' (Eq BNull) (lookup_users us d) =
        (\<exists>u\<in>set ?js. \<exists>x\<in>set (path_values [''name''] (BDoc u)). elem_matches (Eq BNull) x)"
    by (simp only: doc_matches_def split_createdBy_name joined_values [OF lookup_users_values]
          list_ex_iff)
      auto
  also have "\<dots> = False"
    using assms named_values by (auto simp: list_all_iff simp del: path_values.simps)
  finally show ?thesis by simp
qed

lemma unfiltered_stages:
  "aggregate st ''books'' (unfiltered_pipeline name) =
     Inr (map collapse_stage (map (lookup_users (users st)) (books st)))"
proof -
  let ?joined = "map (lookup_users (users st)) (books st)"
  have "\<And>d. d \<in> set ?joined \<Longrightarrow> is_array (map_of d ''createdBy'')"
    by (auto simp: lookup_users_array)
  then have "run_stage (collection st) (Set ''createdBy'' (First (FieldPath ''createdBy''))) ?joined =
      Inr (map collapse_stage ?joined)"
    by (rule run_set_first)
  then show ?thesis
    by (simp only: aggregate_def unfiltered_pipeline_def listBook_pipeline_def is_match_def
          filter.simps stage.case if_True if_False not_True_eq_False not_False_eq_True
          run_pipeline.simps run_lookup collection_def sum.case)
      simp
qed

lemma absent_name_empty:
  assumes "list_all named (users st)"
  shows "aggregate st ''books'' (listBook_pipeline None) = Inr []"
proof -
  have "filter (doc_matches ''createdBy.name'' (Eq BNull))
          (map (lookup_users (users st)) (books st)) = []"
    using null_drops_named [OF assms(1)] by (simp add: filter_empty_conv)
  then show ?thesis
    by (simp add: listBook_stages serialize_def)
qed

lemma sample_named: "list_all named (users sample_server)"
  by (simp add: sample_server_def named_def)

section \<open>The list view\<close>

text \<open>
  C1, as amended. On a database that conforms to the schemas, \<open>listBook\<close> with a name to
  filter on answers 200 with the result of the three stages in their order: the join
  stage gives every book the users whose \<open>_id\<close> is its \<open>createdBy\<close>, each reduced to its
  \<open>_id\<close> and \<open>name\<close> fields; the filter stage keeps the books with a joined user of
  exactly that name; the collapse stage replaces the joined sequence by its first
  element. The database is left as it was.
\<close>

theorem listBook_three_stages:
  assumes "conforms st" and "name_query req = Some v"
  shows "listBook req st =
           (Json 200 (BArr (map BDoc (listWithRelationFilter [''_id'', ''name''] v st))), st)"
proof -
  let ?keep = "[''_id'', ''name'']"
  have users: "list_all user_shape (users st)" and books: "list_all book_shape (books st)"
    using assms(1) by (simp_all add: conforms_def)
  have joined: "map (lookup_users (users st)) (books st) =
                map (join_stage ?keep (users st)) (books st)"
  proof (rule map_cong [OF refl])
    fix b assume "b \<in> set (books st)"
    with books have "\<not> is_array (map_of b ''createdBy'')"
      by (simp add: list_all_iff book_shape_def)
    with users show "lookup_users (users st) b = join_stage ?keep (users st) b"
      by (rule lookup_users_join)
  qed
  have kept: "filter (doc_matches ''createdBy.name'' (Eq (BStr v)))
                (map (join_stage ?keep (users st)) (books st)) =
              filter (filter_stage v) (map (join_stage ?keep (users st)) (books st))"
  proof (rule filter_cong [OF refl])
    fix d assume "d \<in> set (map (join_stage ?keep (users st)) (books st))"
    then obtain b where d: "d = join_stage ?keep (users st) b" by auto
    let ?js = "map (restrict_to ?keep)
                 (filter (\<lambda>u. map_of u ''_id'' = map_of b ''createdBy'') (users st))"
    have "\<not> is_array (map_of u ''name'')" if "u \<in> set ?js" for u
    proof -
      from that obtain w where "w \<in> set (users st)" and "u = restrict_to ?keep w" by auto
      with users show ?thesis
        by (simp add: list_all_iff user_shape_def map_of_restrict_to)
    qed
    with join_stage_array [of ?keep "users st" b]
    show "doc_matches ''createdBy.name'' (Eq (BStr v)) d = filter_stage v d"
      unfolding d by (rule match_joined_name)
  qed
  show ?thesis
    by (simp add: listBook_def listBook_stages assms(2) serialize_def joined kept
          listWithRelationFilter_def)
qed

theorem listBook_three_stages_witness:
  "conforms sample_server \<and>
   listBook \<lparr>bookId = [], name_query = Some ''ann'', body = []\<rparr> sample_server =
     (Json 200 (BArr [BDoc [(''name'', BStr ''Dune''),
                            (''createdBy'', BDoc [(''_id'', BOid 1), (''name'', BStr ''ann'')]),
                            (''_id'', BOid 10)]]),
      sample_server)"
proof -
  have q: "name_query \<lparr>bookId = [], name_query = Some ''ann'', body = []\<rparr> = Some ''ann''"
    by simp
  have "listWithRelationFilter [''_id'', ''name''] ''ann'' sample_server =
          [[(''name'', BStr ''Dune''),
            (''createdBy'', BDoc [(''_id'', BOid 1), (''name'', BStr ''ann'')]),
            (''_id'', BOid 10)]]"
    by (simp add: listWithRelationFilter_def sample_server_def join_stage_def restrict_to_def
          filter_stage_def collapse_stage_def)
  with listBook_three_stages [OF conforms_sample q] conforms_sample show ?thesis by simp
qed

text \<open>C1 as stated has the join stage reduce the joined users to their \<open>name\<close> field
  only. The users that \<open>listBook\<close> returns keep their \<open>_id\<close> as well: on the sample
  database the answer differs from the list view with name-only users.\<close>

theorem listBook_name_only_counterexample:
  "listBook \<lparr>bookId = [], name_query = Some ''ann'', body = []\<rparr> sample_server \<noteq>
     (Json 200 (BArr (map BDoc (listWithRelationFilter [''name''] ''ann'' sample_server))),
      sample_server)"
  by (simp add: listBook_def listBook_stages serialize_def listWithRelationFilter_def
        sample_server_def lookup_users_def lookup_eq_def project_fields_def doc_matches_def
        join_stage_def restrict_to_def filter_stage_def collapse_stage_def)

text \<open>
  C2, as amended. Without a \<open>name\<close> in the query the filter stage is not idle: the absent
  value is matched as null, which no user with a name satisfies. When every user document
  has a string as its name, \<open>listBook\<close> answers 200 with the empty sequence, whereas the
  same pipeline without the filter stage answers 200 with one document for each book.
\<close>

theorem absent_filter_drops_named:
  assumes "list_all named (users st)" and "name_query req = None"
  shows "listBook req st = (Json 200 (BArr []), st) \<and>
         (\<exists>ds. listBook_unfiltered req st = (Json 200 (BArr (map BDoc ds)), st) \<and>
               length ds = length (books st))"
proof
  show "listBook req st = (Json 200 (BArr []), st)"
    by (simp add: listBook_def assms(2) absent_name_empty [OF assms(1)])
next
  let ?ds = "map collapse_stage (map (lookup_users (users st)) (books st))"
  have "listBook_unfiltered req st = (Json 200 (BArr (map BDoc ?ds)), st) \<and>
        length ?ds = length (books st)"
    by (simp add: listBook_unfiltered_def unfiltered_stages)
  then show "\<exists>ds. listBook_unfiltered req st = (Json 200 (BArr (map BDoc ds)), st) \<and>
               length ds = length (books st)"
    by (rule exI)
qed

theorem absent_filter_drops_named_witness:
  "list_all named (users sample_server) \<and>
   listBook \<lparr>bookId = [], name_query = None, body = []\<rparr> sample_server =
     (Json 200 (BArr []), sample_server) \<and>
   (\<exists>ds. listBook_unfiltered \<lparr>bookId = [], name_query = None, body = []\<rparr> sample_server =
            (Json 200 (BArr (map BDoc ds)), sample_server) \<and> length ds = 3)"
proof -
  have q: "name_query \<lparr>bookId = [], name_query = None, body = []\<rparr> = None" by simp
  have "length (books sample_server) = 3" by (simp add: sample_server_def)
  with absent_filter_drops_named [OF sample_named q] sample_named show ?thesis by simp
qed

text \<open>C2 as stated makes the answer without a \<open>name\<close> the same as that of the pipeline
  without the filter stage. On the sample database the two differ.\<close>

theorem absent_filter_not_noop_counterexample:
  "listBook \<lparr>bookId = [], name_query = None, body = []\<rparr> sample_server \<noteq>
   listBook_unfiltered \<lparr>bookId = [], name_query = None, body = []\<rparr> sample_server"
proof -
  have "books sample_server \<noteq> []" by (simp add: sample_server_def)
  then show ?thesis
    by (simp add: listBook_def listBook_unfiltered_def absent_name_empty [OF sample_named]
        unfiltered_stages)
qed

section \<open>The grouping example\<close>

text \<open>The engine reproduces the output that the documentation gives for its own sample.\<close>

lemma products_pipeline_documented:
  "run_pipeline db products_pipeline products_sample =
     Inr [[(''_id'', BNum 20), (''totalQuantity'', BNum 9), (''count'', BNum 2)],
          [(''_id'', BNum 15), (''totalQuantity'', BNum 3), (''count'', BNum 1)]]"
  by (simp add: products_pipeline_def match_price_def group_by_price_def
        sort_by_totalQuantity_def products_sample_def group_docs_def group_key_def numeric_def
        sort_docs_def bson_less_def type_rank_def doc_matches_def)

lemma group_stage_products:
  "run_stage db group_by_price products_claim =
     Inr [[(''_id'', BNum 10), (''totalQuantity'', BNum 13), (''count'', BNum 2)],
          [(''_id'', BNum 20), (''totalQuantity'', BNum 2), (''count'', BNum 1)]]"
  by (simp add: group_by_price_def products_claim_def group_docs_def group_key_def numeric_def)

text \<open>
  C9, as amended. On the three documents \<open>{id:1, price:10, quantity:5}\<close>,
  \<open>{id:2, price:10, quantity:8}\<close>, \<open>{id:3, price:20, quantity:2}\<close> the group stage gives
  exactly the groups \<open>{_id:10, totalQuantity:13, count:2}\<close> and
  \<open>{_id:20, totalQuantity:2, count:1}\<close> (the price is the group's \<open>_id\<close>), and sorting by
  \<open>totalQuantity\<close> descending and limiting to 1 leaves only the group of price 10.
\<close>

theorem grouping_example:
  "run_pipeline db [group_by_price] products_claim =
     Inr [[(''_id'', BNum 10), (''totalQuantity'', BNum 13), (''count'', BNum 2)],
          [(''_id'', BNum 20), (''totalQuantity'', BNum 2), (''count'', BNum 1)]] \<and>
   run_pipeline db [group_by_price, sort_by_totalQuantity, Limit 1] products_claim =
     Inr [[(''_id'', BNum 10), (''totalQuantity'', BNum 13), (''count'', BNum 2)]]"
  by (simp add: group_stage_products sort_by_totalQuantity_def sort_docs_def bson_less_def type_rank_def)

theorem grouping_example_witness:
  "run_pipeline (\<lambda>_. []) [group_by_price] products_claim =
     Inr [[(''_id'', BNum 10), (''totalQuantity'', BNum 13), (''count'', BNum 2)],
          [(''_id'', BNum 20), (''totalQuantity'', BNum 2), (''count'', BNum 1)]] \<and>
   run_pipeline (\<lambda>_. []) [group_by_price, sort_by_totalQuantity, Limit 1] products_claim =
     Inr [[(''_id'', BNum 10), (''totalQuantity'', BNum 13), (''count'', BNum 2)]]"
  using grouping_example [of "\<lambda>_. []"] .

text \<open>C9 as stated names the groups \<open>{price:10, totalQuantity:13, count:2}\<close> and
  \<open>{price:20, totalQuantity:2, count:1}\<close>. The group stage does not produce these
  documents: its groups have no \<open>price\<close> field.\<close>

theorem grouping_example_counterexample:
  "\<not> (\<exists>ds. run_pipeline (\<lambda>_. []) [group_by_price] products_claim = Inr ds \<and>
          set ds = {[(''price'', BNum 10), (''totalQuantity'', BNum 13), (''count'', BNum 2)],
                    [(''price'', BNum 20), (''totalQuantity'', BNum 2), (''count'', BNum 1)]})"
proof
  assume "\<exists>ds. run_pipeline (\<lambda>_. []) [group_by_price] products_claim = Inr ds \<and>
          set ds = {[(''price'', BNum 10), (''totalQuantity'', BNum 13), (''count'', BNum 2)],
                    [(''price'', BNum 20), (''totalQuantity'', BNum 2), (''count'', BNum 1)]}"
  then obtain ds where run: "run_pipeline (\<lambda>_. []) [group_by_price] products_claim = Inr ds"
    and groups: "set ds = {[(''price'', BNum 10), (''totalQuantity'', BNum 13), (''count'', BNum 2)],
                    [(''price'', BNum 20), (''totalQuantity'', BNum 2), (''count'', BNum 1)]}"
    by blast
  from run have "ds = [[(''_id'', BNum 10), (''totalQuantity'', BNum 13), (''count'', BNum 2)],
          [(''_id'', BNum 20), (''totalQuantity'', BNum 2), (''count'', BNum 1)]]"
    by (simp add: group_stage_products)
  then have "[(''_id'', BNum 10), (''totalQuantity'', BNum 13), (''count'', BNum 2)] \<in> set ds"
    by simp
  with groups show False by simp
qed

section \<open>Facts about the sample data\<close>

lemma sample_id_10: "sample_cast_id ''00000000000000000000000a'' = Inr 10"
  by (simp add: sample_cast_id_def hex_digit_def)

lemma sample_id_99: "sample_cast_id ''000000000000000000000063'' = Inr 99"
  by (simp add: sample_cast_id_def hex_digit_def)

lemma sample_id_1: "sample_cast_id ''000000000000000000000001'' = Inr 1"
  by (simp add: sample_cast_id_def hex_digit_def)

lemma sample_has_10: "list_ex (has_id 10) (books sample_server)"
  by (simp add: sample_server_def has_id_def)

lemma sample_lacks_99: "\<not> list_ex (has_id 99) (books sample_server)"
  by (simp add: sample_server_def has_id_def)

section \<open>Outcomes of the auth middleware\<close>

lemma first_piece: "js_index (split_on c r) 0 = Some (takeWhile (\<lambda>x. x \<noteq> c) r)"
  by (induction r) (auto split: list.splits)

lemma bearer_token:
  assumes "prefix ''Bearer '' h"
  shows "js_index (split_on CHR '' '' h) (Suc 0) = Some (takeWhile (\<lambda>x. x \<noteq> CHR '' '') (after_prefix h))"
proof -
  from assms obtain r where h: "h = ''Bearer '' @ r" by (auto simp: prefix_def)
  show ?thesis
    by (simp add: h after_prefix_def first_piece split: list.splits)
qed

text \<open>
  C3. \<open>authMiddleware\<close> has three outcomes. Without a header, or with a header that
  does not start with \<open>Bearer \<close> (the empty header included), it answers 401 and
  verifies nothing. With the prefix, the extracted token is verified under the secret:
  when that fails it answers 400; when it succeeds with some decoded claims, these become
  \<open>req.user\<close>, \<open>next\<close> is called and nothing is sent. In every case the database is as it
  was.
\<close>

theorem authenticate_three_outcomes:
  "((h = None \<or> (\<exists>s. h = Some s \<and> \<not> prefix ''Bearer '' s)) \<longrightarrow>
      authMiddleware jwt_verify h st =
        \<lparr>sent = Some (Json 401 (message ''Access denied. No token provided.'')),
         req_user = None, next_called = False, verified = [], store = st\<rparr>) \<and>
   (\<forall>s. h = Some s \<and> prefix ''Bearer '' s \<and>
        jwt_verify (takeWhile (\<lambda>x. x \<noteq> CHR '' '') (after_prefix s)) ''yourSecretKey'' = None \<longrightarrow>
      authMiddleware jwt_verify h st =
        \<lparr>sent = Some (Json 400 (message ''Invalid token.'')),
         req_user = None, next_called = False,
         verified = [Some (takeWhile (\<lambda>x. x \<noteq> CHR '' '') (after_prefix s))], store = st\<rparr>) \<and>
   (\<forall>s decoded. h = Some s \<and> prefix ''Bearer '' s \<and>
        jwt_verify (takeWhile (\<lambda>x. x \<noteq> CHR '' '') (after_prefix s)) ''yourSecretKey'' = Some decoded \<longrightarrow>
      authMiddleware jwt_verify h st =
        \<lparr>sent = None, req_user = Some decoded, next_called = True,
         verified = [Some (takeWhile (\<lambda>x. x \<noteq> CHR '' '') (after_prefix s))], store = st\<rparr>) \<and>
   store (authMiddleware jwt_verify h st) = st"
proof (intro conjI allI impI)
  assume "h = None \<or> (\<exists>s. h = Some s \<and> \<not> prefix ''Bearer '' s)"
  then show "authMiddleware jwt_verify h st =
        \<lparr>sent = Some (Json 401 (message ''Access denied. No token provided.'')),
         req_user = None, next_called = False, verified = [], store = st\<rparr>"
    by (auto simp: authMiddleware_def access_denied_def)
next
  fix s
  assume a: "h = Some s \<and> prefix ''Bearer '' s \<and>
        jwt_verify (takeWhile (\<lambda>x. x \<noteq> CHR '' '') (after_prefix s)) ''yourSecretKey'' = None"
  then have "s \<noteq> []" by auto
  with a show "authMiddleware jwt_verify h st =
        \<lparr>sent = Some (Json 400 (message ''Invalid token.'')),
         req_user = None, next_called = False,
         verified = [Some (takeWhile (\<lambda>x. x \<noteq> CHR '' '') (after_prefix s))], store = st\<rparr>"
    by (simp add: authMiddleware_def access_denied_def bearer_token Let_def del: split_on.simps js_index.simps)
next
  fix s decoded
  assume a: "h = Some s \<and> prefix ''Bearer '' s \<and>
        jwt_verify (takeWhile (\<lambda>x. x \<noteq> CHR '' '') (after_prefix s)) ''yourSecretKey'' = Some decoded"
  then have "s \<noteq> []" by auto
  with a show "authMiddleware jwt_verify h st =
        \<lparr>sent = None, req_user = Some decoded, next_called = True,
         verified = [Some (takeWhile (\<lambda>x. x \<noteq> CHR '' '') (after_prefix s))], store = st\<rparr>"
    by (simp add: authMiddleware_def access_denied_def bearer_token Let_def del: split_on.simps js_index.simps)
next
  show "store (authMiddleware jwt_verify h st) = st"
    by (simp add: authMiddleware_def access_denied_def Let_def split: option.splits)
qed

theorem authenticate_three_outcomes_witness:
  "authMiddleware sample_verify None sample_server =
     \<lparr>sent = Some (Json 401 (message ''Access denied. No token provided.'')),
      req_user = None, next_called = False, verified = [], store = sample_server\<rparr> \<and>
   authMiddleware sample_verify (Some ''Basic good.token'') sample_server =
     \<lparr>sent = Some (Json 401 (message ''Access denied. No token provided.'')),
      req_user = None, next_called = False, verified = [], store = sample_server\<rparr> \<and>
   authMiddleware sample_verify (Some ''Bearer bad.token'') sample_server =
     \<lparr>sent = Some (Json 400 (message ''Invalid token.'')),
      req_user = None, next_called = False, verified = [Some ''bad.token''],
      store = sample_server\<rparr> \<and>
   authMiddleware sample_verify (Some ''Bearer good.token'') sample_server =
     \<lparr>sent = None, req_user = Some [(''id'', BOid 1), (''email'', BStr ''ann@example.org'')],
      next_called = True, verified = [Some ''good.token''], store = sample_server\<rparr>"
  using authenticate_three_outcomes [of None sample_verify sample_server]
    authenticate_three_outcomes [of "Some ''Basic good.token''" sample_verify sample_server]
    authenticate_three_outcomes [of "Some ''Bearer bad.token''" sample_verify sample_server]
    authenticate_three_outcomes [of "Some ''Bearer good.token''" sample_verify sample_server]
  by (simp add: after_prefix_def sample_verify_def)

text \<open>
  C4, as amended. For a header that starts with \<open>Bearer \<close>, the token verified is the
  part of the header after the prefix up to the next space (the second piece of
  \<open>split(" ")\<close>); it is all of the header after the prefix exactly when that has no space
  in it.
\<close>

theorem verified_token_is_first_piece:
  assumes "prefix ''Bearer '' h"
  shows "verified (authMiddleware jwt_verify (Some h) st) =
           [Some (takeWhile (\<lambda>x. x \<noteq> CHR '' '') (after_prefix h))] \<and>
         (CHR '' '' \<notin> set (after_prefix h) \<longrightarrow>
            verified (authMiddleware jwt_verify (Some h) st) = [Some (after_prefix h)])"
proof -
  from assms have "h \<noteq> []" by auto
  with assms have "verified (authMiddleware jwt_verify (Some h) st) =
           [Some (takeWhile (\<lambda>x. x \<noteq> CHR '' '') (after_prefix h))]"
    by (simp add: authMiddleware_def access_denied_def bearer_token Let_def split: option.splits
          del: split_on.simps js_index.simps)
  moreover have "takeWhile (\<lambda>x. x \<noteq> CHR '' '') (after_prefix h) = after_prefix h"
    if "CHR '' '' \<notin> set (after_prefix h)"
    using that by (auto simp: takeWhile_eq_all_conv)
  ultimately show ?thesis by simp
qed

theorem verified_token_is_first_piece_witness:
  "prefix ''Bearer '' ''Bearer good.token'' \<and>
   verified (authMiddleware sample_verify (Some ''Bearer good.token'') sample_server) =
     [Some ''good.token'']"
proof -
  have p: "prefix ''Bearer '' ''Bearer good.token''" by simp
  from verified_token_is_first_piece [OF p, of sample_verify sample_server] p
  show ?thesis by (simp add: after_prefix_def)
qed

text \<open>C4 as stated takes the whole rest of the header as the token. A header with a
  second space is verified on its second piece alone, and here is let through.\<close>

theorem verified_token_counterexample:
  "prefix ''Bearer '' ''Bearer good.token and more'' \<and>
   verified (authMiddleware sample_verify (Some ''Bearer good.token and more'') sample_server) \<noteq>
     [Some (after_prefix ''Bearer good.token and more'')] \<and>
   next_called (authMiddleware sample_verify (Some ''Bearer good.token and more'') sample_server)"
  by (simp add: authMiddleware_def access_denied_def after_prefix_def sample_verify_def)

section \<open>Creating a book\<close>

text \<open>
  C5. On \<open>POST /books/add\<close> a body whose \<open>name\<close> is the string \<open>book1\<close> is rejected:
  the error goes to the error handler and nothing is created. With any other \<open>name\<close>
  (none at all included) the request goes on to \<open>addBook\<close>, whose reply and database are
  the outcome.
\<close>

theorem book1_rejected:
  "(map_of (body req) ''name'' = Some (BStr ''book1'') \<longrightarrow>
      bookRoutes mg POST [''add''] req st = (ErrorHandler ''invalid request'', st)) \<and>
   (map_of (body req) ''name'' \<noteq> Some (BStr ''book1'') \<longrightarrow>
      bookRoutes mg POST [''add''] req st =
        (Replied (fst (addBook mg req st)), snd (addBook mg req st)))"
  by (simp add: bookRoutes_def middle_def replied_def route_is_def ascii_lower_def)

theorem book1_rejected_witness:
  "bookRoutes sample_mongoose POST [''add'']
     \<lparr>bookId = [], name_query = None,
      body = [(''name'', BStr ''book1''), (''createdBy'', BStr ''000000000000000000000001'')]\<rparr>
     sample_server = (ErrorHandler ''invalid request'', sample_server) \<and>
   bookRoutes sample_mongoose POST [''add'']
     \<lparr>bookId = [], name_query = None,
      body = [(''name'', BStr ''Book1''), (''createdBy'', BStr ''000000000000000000000001'')]\<rparr>
     sample_server =
     (Replied (Json 200 (BDoc [(''name'', BStr ''Book1''), (''createdBy'', BOid 1), (''_id'', BOid 20),
                               (''createdAt'', BDate 5), (''updatedAt'', BDate 5), (''__v'', BNum 0)])),
      sample_server\<lparr>books := books sample_server @
                         [[(''name'', BStr ''Book1''), (''createdBy'', BOid 1), (''_id'', BOid 20),
                           (''createdAt'', BDate 5), (''updatedAt'', BDate 5), (''__v'', BNum 0)]],
                     nextId := 21\<rparr>)"
proof -
  let ?r1 = "\<lparr>bookId = [], name_query = None,
      body = [(''name'', BStr ''book1''), (''createdBy'', BStr ''000000000000000000000001'')]\<rparr>"
  let ?r2 = "\<lparr>bookId = [], name_query = None,
      body = [(''name'', BStr ''Book1''), (''createdBy'', BStr ''000000000000000000000001'')]\<rparr>"
  have "addBook sample_mongoose ?r2 sample_server =
     (Json 200 (BDoc [(''name'', BStr ''Book1''), (''createdBy'', BOid 1), (''_id'', BOid 20),
                               (''createdAt'', BDate 5), (''updatedAt'', BDate 5), (''__v'', BNum 0)]),
      sample_server\<lparr>books := books sample_server @
                         [[(''name'', BStr ''Book1''), (''createdBy'', BOid 1), (''_id'', BOid 20),
                           (''createdAt'', BDate 5), (''updatedAt'', BDate 5), (''__v'', BNum 0)]],
                     nextId := 21\<rparr>)"
    by (simp add: addBook_def Book_create_def sample_mongoose_def sample_cast_book_def sample_id_1
          sample_server_def Let_def)
  with book1_rejected [of ?r1 sample_mongoose sample_server]
    book1_rejected [of ?r2 sample_mongoose sample_server]
  show ?thesis by simp
qed

text \<open>
  C10. \<open>addBook\<close> reads \<open>name\<close> and \<open>createdBy\<close> of the body and nothing else: two
  requests that agree on these two fields get the same reply and leave the same database;
  on databases that differ, the replies agree up to \<open>_id\<close>, \<open>createdAt\<close> and
  \<open>updatedAt\<close>. The reply is an error, with the database as it was, or the created
  document, which is the one appended to the collection and has the fields \<open>name\<close>,
  \<open>createdBy\<close>, \<open>_id\<close>, \<open>createdAt\<close>, \<open>updatedAt\<close> and \<open>__v\<close> only.
\<close>

theorem addBook_reads_two_fields:
  assumes "map_of (body r1) ''name'' = map_of (body r2) ''name''"
    and "map_of (body r1) ''createdBy'' = map_of (body r2) ''createdBy''"
  shows "addBook mg r1 st = addBook mg r2 st \<and>
         without_assigned (fst (addBook mg r1 st1)) = without_assigned (fst (addBook mg r2 st2)) \<and>
         ((\<exists>e. addBook mg r1 st = (Json 400 (message e), st)) \<or>
          (\<exists>book. addBook mg r1 st =
                    (Json 200 (BDoc book),
                     st\<lparr>books := books st @ [book], nextId := Suc (nextId st)\<rparr>) \<and>
                  map fst book = [''name'', ''createdBy'', ''_id'', ''createdAt'', ''updatedAt'', ''__v'']))"
  using assms
  by (auto simp: addBook_def Book_create_def without_assigned_def message_def Let_def
        split: sum.splits prod.splits)

theorem addBook_reads_two_fields_witness:
  "addBook sample_mongoose
     \<lparr>bookId = [], name_query = None,
      body = [(''name'', BStr ''Persuasion''), (''createdBy'', BStr ''000000000000000000000001''),
              (''price'', BNum 12)]\<rparr> sample_server =
   addBook sample_mongoose
     \<lparr>bookId = [], name_query = None,
      body = [(''_id'', BStr ''00000000000000000000000a''), (''createdBy'', BStr ''000000000000000000000001''),
              (''name'', BStr ''Persuasion'')]\<rparr> sample_server \<and>
   fst (addBook sample_mongoose
     \<lparr>bookId = [], name_query = None,
      body = [(''name'', BStr ''Persuasion''), (''createdBy'', BStr ''000000000000000000000001''),
              (''price'', BNum 12)]\<rparr> sample_server) =
     Json 200 (BDoc [(''name'', BStr ''Persuasion''), (''createdBy'', BOid 1), (''_id'', BOid 20),
                     (''createdAt'', BDate 5), (''updatedAt'', BDate 5), (''__v'', BNum 0)])"
proof -
  let ?r1 = "\<lparr>bookId = [], name_query = None,
      body = [(''name'', BStr ''Persuasion''), (''createdBy'', BStr ''000000000000000000000001''),
              (''price'', BNum 12)]\<rparr>"
  let ?r2 = "\<lparr>bookId = [], name_query = None,
      body = [(''_id'', BStr ''00000000000000000000000a''), (''createdBy'', BStr ''000000000000000000000001''),
              (''name'', BStr ''Persuasion'')]\<rparr>"
  have n: "map_of (body ?r1) ''name'' = map_of (body ?r2) ''name''" by simp
  have c: "map_of (body ?r1) ''createdBy'' = map_of (body ?r2) ''createdBy''" by simp
  have "fst (addBook sample_mongoose ?r1 sample_server) =
     Json 200 (BDoc [(''name'', BStr ''Persuasion''), (''createdBy'', BOid 1), (''_id'', BOid 20),
                     (''createdAt'', BDate 5), (''updatedAt'', BDate 5), (''__v'', BNum 0)])"
    by (simp add: addBook_def Book_create_def sample_mongoose_def sample_cast_book_def sample_id_1
          sample_server_def Let_def)
  with addBook_reads_two_fields [OF n c, of sample_mongoose sample_server sample_server sample_server]
  show ?thesis by simp
qed

section \<open>Reading, updating and deleting one book\<close>

lemma id_match: "has_oid b \<Longrightarrow> doc_matches ''_id'' (Eq (BOid i)) b = has_id i b"
  by (auto simp: doc_matches_def has_oid_def has_id_def split: option.splits bson.splits)

lemma name_match:
  "\<not> is_array (map_of b ''name'') \<Longrightarrow>
   doc_matches ''name'' (Eq (BStr p)) b = (map_of b ''name'' = Some (BStr p))"
  by (auto simp: doc_matches_def is_array_def split: option.splits bson.splits)

lemma deleteOne_cong:
  "(\<And>d. d \<in> set ds \<Longrightarrow> p d = q d) \<Longrightarrow> deleteOne p ds = deleteOne q ds"
  by (induction ds) auto

lemma deleteOne_none: "\<not> list_ex p ds \<Longrightarrow> deleteOne p ds = (0, ds)"
  by (induction ds) auto

lemma deleteOne_unique:
  "distinct (map f ds) \<Longrightarrow> list_ex (\<lambda>d. f d = k) ds \<Longrightarrow>
   deleteOne (\<lambda>d. f d = k) ds = (1, filter (\<lambda>d. f d \<noteq> k) ds)"
proof (induction ds)
  case Nil
  then show ?case by simp
next
  case (Cons d ds)
  show ?case
  proof (cases "f d = k")
    case True
    with Cons.prems(1) have "k \<notin> f ` set ds" by simp
    then have "\<forall>x\<in>set ds. f x \<noteq> k" by blast
    then have "filter (\<lambda>d. f d \<noteq> k) ds = ds" by (simp add: filter_id_conv)
    with True show ?thesis by simp
  next
    case False
    with Cons show ?thesis by simp
  qed
qed

lemma replace_first_none: "\<not> list_ex p ds \<Longrightarrow> replace_first p f ds = None"
  by (induction ds) auto

lemma replace_first_cong:
  "(\<And>d. d \<in> set ds \<Longrightarrow> p d = q d) \<Longrightarrow> replace_first p f ds = replace_first q f ds"
  by (induction ds) auto

lemma books_have_ids: "conforms st \<Longrightarrow> d \<in> set (books st) \<Longrightarrow> has_oid d"
  by (simp add: conforms_def list_all_iff book_shape_def)

lemma delete_by_id:
  assumes "conforms st"
  shows "deleteOne (doc_matches ''_id'' (Eq (BOid i))) (books st) = deleteOne (has_id i) (books st)"
  by (rule deleteOne_cong) (simp add: id_match books_have_ids [OF assms])

lemma deleteBook_absent:
  assumes "conforms st" and "\<not> list_ex (has_id i) (books st)" and "cast_id mg (bookId req) = Inr i"
  shows "deleteBook mg req st =
           (Json 200 (BDoc [(''acknowledged'', BBool True), (''deletedCount'', BNum 0)]), st)"
  by (simp add: deleteBook_def assms(3) delete_by_id [OF assms(1)] deleteOne_none [OF assms(2)])

lemma deleteBook_present:
  assumes "conforms st" and "list_ex (has_id i) (books st)" and "cast_id mg (bookId req) = Inr i"
  shows "deleteBook mg req st =
           (Json 200 (BDoc [(''acknowledged'', BBool True), (''deletedCount'', BNum 1)]),
            st\<lparr>books := filter (\<lambda>b. \<not> has_id i b) (books st)\<rparr>)"
proof -
  have "distinct (map (\<lambda>d. map_of d ''_id'') (books st))"
    using assms(1) by (simp add: conforms_def unique_ids_def)
  moreover have "list_ex (\<lambda>d. map_of d ''_id'' = Some (BOid i)) (books st)"
    using assms(2) unfolding has_id_def .
  ultimately have "deleteOne (\<lambda>d. map_of d ''_id'' = Some (BOid i)) (books st) =
                   (1, filter (\<lambda>d. map_of d ''_id'' \<noteq> Some (BOid i)) (books st))"
    by (rule deleteOne_unique)
  then have "deleteOne (has_id i) (books st) = (1, filter (\<lambda>b. \<not> has_id i b) (books st))"
    by (simp add: has_id_def [abs_def])
  then show ?thesis
    by (simp add: deleteBook_def assms(3) delete_by_id [OF assms(1)])
qed

lemma conforms_filter: "conforms st \<Longrightarrow> conforms (st\<lparr>books := filter P (books st)\<rparr>)"
  by (auto simp: conforms_def list_all_iff unique_ids_def distinct_map_filter)

lemma updateBook_absent:
  assumes "conforms st" and "\<not> list_ex (has_id i) (books st)"
    and "cast_update mg (bookId req) (body req) = Inr (i, upd)"
  shows "updateBook mg req st = (Json 404 (message ''Book not found''), st)"
proof -
  have "replace_first (doc_matches ''_id'' (Eq (BOid i))) (apply_update upd (clock st)) (books st) =
        replace_first (has_id i) (apply_update upd (clock st)) (books st)"
    by (rule replace_first_cong) (simp add: id_match books_have_ids [OF assms(1)])
  then show ?thesis
    by (simp add: updateBook_def assms(3) findByIdAndUpdate_def replace_first_none [OF assms(2)])
qed

lemma find_by_name:
  assumes "conforms st"
  shows "findOne ''name'' (BStr p) (books st) = find (\<lambda>b. map_of b ''name'' = Some (BStr p)) (books st)"
  unfolding findOne_def
proof (rule find_cong [OF refl])
  fix b assume "b \<in> set (books st)"
  with assms have "\<not> is_array (map_of b ''name'')"
    by (simp add: conforms_def list_all_iff book_shape_def)
  then show "doc_matches ''name'' (Eq (BStr p)) b = (map_of b ''name'' = Some (BStr p))"
    by (rule name_match)
qed

lemma populate_creator:
  assumes "conforms st"
  shows "populate (users st) ''createdBy'' [''name''] b = with_creator [''_id'', ''name''] (users st) b"
proof -
  have "findOne ''_id'' (BOid i) (users st) = find (has_id i) (users st)" for i
    unfolding findOne_def
  proof (rule find_cong [OF refl])
    fix u assume "u \<in> set (users st)"
    with assms have "has_oid u" by (simp add: conforms_def list_all_iff user_shape_def)
    then show "doc_matches ''_id'' (Eq (BOid i)) u = has_id i u" by (rule id_match)
  qed
  then show ?thesis
    by (simp add: populate_def with_creator_def project_name_restrict
          split: option.splits bson.splits)
qed

lemma read_one_not_found:
  assumes "conforms st" and "\<not> list_ex (\<lambda>b. map_of b ''name'' = Some (BStr (bookId req))) (books st)"
  shows "updateOnlyOneBook req st = (Json 404 (message ''Book not found''), st)"
proof -
  from assms(2) have "find (\<lambda>b. map_of b ''name'' = Some (BStr (bookId req))) (books st) = None"
    by (simp add: find_None_iff list_ex_iff)
  then show ?thesis
    by (simp add: updateOnlyOneBook_def find_by_name [OF assms(1)])
qed

lemma read_one_store: "snd (updateOnlyOneBook req st) = st"
  by (simp add: updateOnlyOneBook_def split: option.splits)

text \<open>
  C6, as amended. On a conforming database that has no book with the id \<open>i\<close>: an update
  whose arguments cast to \<open>i\<close> answers 404; a delete whose parameter casts to \<open>i\<close>
  answers 200 with a deletion count of 0; read-one answers 404 when no book has the
  parameter as its name. None of the three changes the database.
\<close>

theorem absent_id_outcomes:
  assumes "conforms st" and "\<not> list_ex (has_id i) (books st)"
  shows "(cast_update mg (bookId req) (body req) = Inr (i, upd) \<longrightarrow>
            updateBook mg req st = (Json 404 (message ''Book not found''), st)) \<and>
         (cast_id mg (bookId req) = Inr i \<longrightarrow>
            deleteBook mg req st =
              (Json 200 (BDoc [(''acknowledged'', BBool True), (''deletedCount'', BNum 0)]), st)) \<and>
         (\<not> list_ex (\<lambda>b. map_of b ''name'' = Some (BStr (bookId req))) (books st) \<longrightarrow>
            updateOnlyOneBook req st = (Json 404 (message ''Book not found''), st)) \<and>
         snd (updateOnlyOneBook req st) = st"
  using assms
  by (simp add: updateBook_absent deleteBook_absent read_one_not_found read_one_store)

theorem absent_id_outcomes_witness:
  "conforms sample_server \<and> \<not> list_ex (has_id 99) (books sample_server) \<and>
   updateBook sample_mongoose
     \<lparr>bookId = ''000000000000000000000063'', name_query = None, body = [(''name'', BStr ''Persuasion'')]\<rparr>
     sample_server = (Json 404 (message ''Book not found''), sample_server) \<and>
   deleteBook sample_mongoose
     \<lparr>bookId = ''000000000000000000000063'', name_query = None, body = [(''name'', BStr ''Persuasion'')]\<rparr>
     sample_server =
     (Json 200 (BDoc [(''acknowledged'', BBool True), (''deletedCount'', BNum 0)]), sample_server) \<and>
   updateOnlyOneBook
     \<lparr>bookId = ''000000000000000000000063'', name_query = None, body = [(''name'', BStr ''Persuasion'')]\<rparr>
     sample_server = (Json 404 (message ''Book not found''), sample_server)"
proof -
  let ?req = "\<lparr>bookId = ''000000000000000000000063'', name_query = None,
               body = [(''name'', BStr ''Persuasion'')]\<rparr>"
  have u: "cast_update sample_mongoose (bookId ?req) (body ?req) = Inr (99, [(''name'', BStr ''Persuasion'')])"
    by (simp add: sample_mongoose_def sample_cast_update_def sample_id_99 sample_cast_field_def)
  have d: "cast_id sample_mongoose (bookId ?req) = Inr 99"
    by (simp add: sample_mongoose_def sample_id_99)
  have n: "\<not> list_ex (\<lambda>b. map_of b ''name'' = Some (BStr (bookId ?req))) (books sample_server)"
    by (simp add: sample_server_def)
  from absent_id_outcomes [OF conforms_sample sample_lacks_99,
      of sample_mongoose ?req "[(''name'', BStr ''Persuasion'')]"] u d n
    conforms_sample sample_lacks_99
  show ?thesis by simp
qed

text \<open>C6 as stated has delete answer not found for an id that is not in the database.
  The answer is not a 404.\<close>

theorem delete_absent_counterexample:
  "cast_id sample_mongoose ''000000000000000000000063'' = Inr 99 \<and>
   \<not> list_ex (has_id 99) (books sample_server) \<and>
   \<not> not_found (fst (deleteBook sample_mongoose
        \<lparr>bookId = ''000000000000000000000063'', name_query = None, body = []\<rparr> sample_server))"
proof -
  let ?req = "\<lparr>bookId = ''000000000000000000000063'', name_query = None, body = []\<rparr>"
  have d: "cast_id sample_mongoose (bookId ?req) = Inr 99"
    by (simp add: sample_mongoose_def sample_id_99)
  from deleteBook_absent [OF conforms_sample sample_lacks_99 d] d sample_lacks_99
  show ?thesis by (simp add: not_found_def)
qed

text \<open>
  C7. For a book that is in a conforming database, a delete by its id answers 200 with a
  deletion count of 1, and the same delete repeated on the resulting database answers 200
  with a count of 0 and leaves that database as it is.
\<close>

theorem delete_twice:
  assumes "conforms st" and "cast_id mg (bookId req) = Inr i" and "list_ex (has_id i) (books st)"
  shows "deleteBook mg req st =
           (Json 200 (BDoc [(''acknowledged'', BBool True), (''deletedCount'', BNum 1)]),
            st\<lparr>books := filter (\<lambda>b. \<not> has_id i b) (books st)\<rparr>) \<and>
         deleteBook mg req (st\<lparr>books := filter (\<lambda>b. \<not> has_id i b) (books st)\<rparr>) =
           (Json 200 (BDoc [(''acknowledged'', BBool True), (''deletedCount'', BNum 0)]),
            st\<lparr>books := filter (\<lambda>b. \<not> has_id i b) (books st)\<rparr>)"
proof
  let ?st' = "st\<lparr>books := filter (\<lambda>b. \<not> has_id i b) (books st)\<rparr>"
  show "deleteBook mg req st =
      (Json 200 (BDoc [(''acknowledged'', BBool True), (''deletedCount'', BNum 1)]), ?st')"
    using assms(1,3,2) by (rule deleteBook_present)
  have "conforms ?st'" using assms(1) by (rule conforms_filter)
  moreover have "\<not> list_ex (has_id i) (books ?st')" by (simp add: list_ex_iff)
  ultimately show "deleteBook mg req ?st' =
      (Json 200 (BDoc [(''acknowledged'', BBool True), (''deletedCount'', BNum 0)]), ?st')"
    using assms(2) by (rule deleteBook_absent)
qed

theorem delete_twice_witness:
  "conforms sample_server \<and>
   cast_id sample_mongoose ''00000000000000000000000a'' = Inr 10 \<and>
   list_ex (has_id 10) (books sample_server) \<and>
   deleteBook sample_mongoose
     \<lparr>bookId = ''00000000000000000000000a'', name_query = None, body = []\<rparr> sample_server =
     (Json 200 (BDoc [(''acknowledged'', BBool True), (''deletedCount'', BNum 1)]),
      sample_server\<lparr>books := [[(''name'', BStr ''Emma''), (''createdBy'', BOid 2), (''_id'', BOid 11)],
                                [(''name'', BStr ''Ulysses''), (''createdBy'', BOid 7), (''_id'', BOid 12)]]\<rparr>) \<and>
   deleteBook sample_mongoose
     \<lparr>bookId = ''00000000000000000000000a'', name_query = None, body = []\<rparr>
     (sample_server\<lparr>books := [[(''name'', BStr ''Emma''), (''createdBy'', BOid 2), (''_id'', BOid 11)],
                                [(''name'', BStr ''Ulysses''), (''createdBy'', BOid 7), (''_id'', BOid 12)]]\<rparr>) =
     (Json 200 (BDoc [(''acknowledged'', BBool True), (''deletedCount'', BNum 0)]),
      sample_server\<lparr>books := [[(''name'', BStr ''Emma''), (''createdBy'', BOid 2), (''_id'', BOid 11)],
                                [(''name'', BStr ''Ulysses''), (''createdBy'', BOid 7), (''_id'', BOid 12)]]\<rparr>)"
proof -
  let ?req = "\<lparr>bookId = ''00000000000000000000000a'', name_query = None, body = []\<rparr>"
  have d: "cast_id sample_mongoose (bookId ?req) = Inr 10"
    by (simp add: sample_mongoose_def sample_id_10)
  have "filter (\<lambda>b. \<not> has_id 10 b) (books sample_server) =
          [[(''name'', BStr ''Emma''), (''createdBy'', BOid 2), (''_id'', BOid 11)],
           [(''name'', BStr ''Ulysses''), (''createdBy'', BOid 7), (''_id'', BOid 12)]]"
    by (simp add: sample_server_def has_id_def)
  with delete_twice [OF conforms_sample d sample_has_10] d conforms_sample sample_has_10
  show ?thesis by simp
qed

text \<open>The routes of the read-one handler: a GET with one segment that is not \<open>list\<close> in
  any letter case reaches \<open>updateOnlyOneBook\<close>, with the segment as \<open>bookId\<close>; \<open>list\<close> in any
  letter case reaches \<open>listBook\<close>.\<close>

lemma get_book_route:
  assumes "p \<noteq> []" and "map ascii_lower p \<noteq> ''list''"
  shows "bookRoutes mg GET [p] req st = replied (updateOnlyOneBook (req\<lparr>bookId := p\<rparr>) st)"
  using assms by (simp add: bookRoutes_def route_is_def)

lemma get_list_route:
  assumes "map ascii_lower p = ''list''"
  shows "bookRoutes mg GET [p] req st = replied (listBook req st)"
  using assms by (simp add: bookRoutes_def route_is_def)

lemma get_list_route_upper:
  "bookRoutes mg GET [''LIST''] req st = replied (listBook req st)"
  by (rule get_list_route) (simp add: ascii_lower_def)

text \<open>
  C8, as amended. The read-one operation \<open>updateOnlyOneBook\<close>, the handler of
  \<open>GET /books/:bookId\<close>, does not read by id. On a conforming database, for every request
  it takes the first book whose \<open>name\<close> is the path parameter, answers 404 when there is
  none, and otherwise answers 200 with that book without its \<open>name\<close> and with
  \<open>createdBy\<close> replaced by the user it refers to, reduced to its \<open>_id\<close> and \<open>name\<close>
  (null when there is no such user). The database is left as it was.
\<close>

theorem read_one_by_name:
  assumes "conforms st"
  shows "updateOnlyOneBook req st = read_by_name [''_id'', ''name''] (bookId req) st"
  by (simp add: updateOnlyOneBook_def read_by_name_def
        find_by_name [OF assms] populate_creator [OF assms] split: option.splits)

theorem read_one_by_name_witness:
  "conforms sample_server \<and>
   updateOnlyOneBook \<lparr>bookId = ''Dune'', name_query = None, body = []\<rparr> sample_server =
     (Json 200 (BDoc [(''createdBy'', BDoc [(''_id'', BOid 1), (''name'', BStr ''ann'')]),
                      (''_id'', BOid 10)]),
      sample_server) \<and>
   updateOnlyOneBook \<lparr>bookId = ''00000000000000000000000a'', name_query = None, body = []\<rparr>
     sample_server =
     (Json 404 (message ''Book not found''), sample_server)"
proof -
  have "read_by_name [''_id'', ''name''] ''Dune'' sample_server =
     (Json 200 (BDoc [(''createdBy'', BDoc [(''_id'', BOid 1), (''name'', BStr ''ann'')]),
                      (''_id'', BOid 10)]),
      sample_server)"
    by (simp add: read_by_name_def sample_server_def with_creator_def has_id_def restrict_to_def)
  moreover have "read_by_name [''_id'', ''name''] ''00000000000000000000000a'' sample_server =
     (Json 404 (message ''Book not found''), sample_server)"
    by (simp add: read_by_name_def sample_server_def)
  ultimately show ?thesis
    using read_one_by_name [OF conforms_sample,
        of "\<lparr>bookId = ''Dune'', name_query = None, body = []\<rparr>"]
      read_one_by_name [OF conforms_sample,
        of "\<lparr>bookId = ''00000000000000000000000a'', name_query = None, body = []\<rparr>"]
      conforms_sample
    by simp
qed

text \<open>C8 as stated restricts the populated user to its name. The user in the answer has
  its \<open>_id\<close> as well.\<close>

theorem read_one_name_only_counterexample:
  "updateOnlyOneBook \<lparr>bookId = ''Dune'', name_query = None, body = []\<rparr> sample_server \<noteq>
   read_by_name [''name''] ''Dune'' sample_server"
proof -
  have "updateOnlyOneBook \<lparr>bookId = ''Dune'', name_query = None, body = []\<rparr> sample_server =
     (Json 200 (BDoc [(''createdBy'', BDoc [(''_id'', BOid 1), (''name'', BStr ''ann'')]),
                      (''_id'', BOid 10)]),
      sample_server)"
    by (simp add: updateOnlyOneBook_def
          find_by_name [OF conforms_sample] populate_creator [OF conforms_sample]
          split: option.splits)
       (simp add: sample_server_def with_creator_def has_id_def restrict_to_def)
  moreover have "read_by_name [''name''] ''Dune'' sample_server =
     (Json 200 (BDoc [(''createdBy'', BDoc [(''name'', BStr ''ann'')]),
                      (''_id'', BOid 10)]),
      sample_server)"
    by (simp add: read_by_name_def sample_server_def with_creator_def has_id_def restrict_to_def)
  ultimately show ?thesis by simp
qed

section \<open>Conformance is kept\<close>

text \<open>The controllers that write keep the database conforming to the schemas; the others
  return the database they were given.\<close>

lemma addBook_conforms:
  assumes "conforms st" and "ids_below st"
  shows "conforms (snd (addBook mg req st)) \<and> ids_below (snd (addBook mg req st))"
proof (cases "cast_book mg (map_of (body req) ''name'') (map_of (body req) ''createdBy'')")
  case (Inl e)
  with assms show ?thesis by (simp add: addBook_def Book_create_def)
next
  case (Inr nc)
  obtain n c where nc: "nc = (n, c)" by (cases nc)
  have fresh: "Some (BOid (nextId st)) \<notin> (\<lambda>d. map_of d ''_id'') ` set (books st)"
  proof
    assume "Some (BOid (nextId st)) \<in> (\<lambda>d. map_of d ''_id'') ` set (books st)"
    then obtain d where "d \<in> set (books st)" and "map_of d ''_id'' = Some (BOid (nextId st))"
      by auto
    with assms(2) show False by (auto simp: ids_below_def list_all_iff)
  qed
  have "ids_below (snd (addBook mg req st))"
    using assms(2)
    by (auto simp: addBook_def Book_create_def Inr nc Let_def ids_below_def list_all_iff
          split: option.splits bson.splits)
  moreover have "conforms (snd (addBook mg req st))"
    using assms(1) fresh
    by (simp add: addBook_def Book_create_def Inr nc Let_def conforms_def unique_ids_def
          book_shape_def has_oid_def is_array_def)
  ultimately show ?thesis by simp
qed

lemma deleteOne_subset: "set (snd (deleteOne p ds)) \<subseteq> set ds"
  by (induction ds) (auto split: prod.splits)

lemma deleteOne_distinct: "distinct (map f ds) \<Longrightarrow> distinct (map f (snd (deleteOne p ds)))"
proof (induction ds)
  case Nil
  then show ?case by simp
next
  case (Cons d ds)
  have "f d \<notin> f ` set (snd (deleteOne p ds))"
    using Cons.prems deleteOne_subset [of p ds] by auto
  with Cons show ?case by (auto split: prod.splits)
qed

lemma deleteBook_conforms:
  assumes "conforms st"
  shows "conforms (snd (deleteBook mg req st))"
proof (cases "cast_id mg (bookId req)")
  case (Inl e)
  with assms show ?thesis by (simp add: deleteBook_def)
next
  case (Inr i)
  let ?bs = "snd (deleteOne (doc_matches ''_id'' (Eq (BOid i))) (books st))"
  have "list_all book_shape ?bs"
    using assms deleteOne_subset [of "doc_matches ''_id'' (Eq (BOid i))" "books st"]
    by (auto simp: conforms_def list_all_iff)
  moreover have "unique_ids ?bs"
    using assms by (simp add: conforms_def unique_ids_def deleteOne_distinct)
  ultimately show ?thesis
    using assms by (auto simp: deleteBook_def Inr conforms_def split: prod.splits)
qed

lemma map_of_apply_fields:
  "map_of (foldl (\<lambda>acc kv. AList.update (fst kv) (snd kv) acc) d upd) k =
     (case map_of (rev upd) k of None \<Rightarrow> map_of d k | Some v \<Rightarrow> Some v)"
  by (induction upd arbitrary: d) (auto simp: update_conv' map_add_def split: option.splits)

lemma replace_first_map:
  "(\<And>d. g (f d) = g d) \<Longrightarrow> replace_first p f ds = Some (d', ds') \<Longrightarrow> map g ds' = map g ds"
  by (induction ds arbitrary: ds') (auto split: if_splits option.splits)

lemma replace_first_all:
  "(\<And>d. P d \<Longrightarrow> P (f d)) \<Longrightarrow> list_all P ds \<Longrightarrow> replace_first p f ds = Some (d', ds') \<Longrightarrow>
   list_all P ds'"
  by (induction ds arbitrary: ds') (auto split: if_splits option.splits)

lemma map_of_apply_update:
  "map_of (apply_update upd now d) k =
     (if k = ''updatedAt'' then Some (BDate now)
      else (case map_of (rev upd) k of None \<Rightarrow> map_of d k | Some v \<Rightarrow> Some v))"
  by (simp add: apply_update_def update_conv' map_of_apply_fields)

lemma schema_fields:
  assumes "list_all (\<lambda>kv. (fst kv = ''name'' \<or> fst kv = ''createdBy'') \<and> \<not> is_array (Some (snd kv))) upd"
  shows "map_of (rev upd) ''_id'' = None"
    and "\<not> is_array (map_of (rev upd) ''name'')"
    and "\<not> is_array (map_of (rev upd) ''createdBy'')"
proof -
  show "map_of (rev upd) ''_id'' = None"
    using assms by (auto simp: map_of_eq_None_iff list_all_iff)
  have "\<not> is_array (Some v)" if "map_of (rev upd) k = Some v" for k v
  proof -
    from that have "(k, v) \<in> set upd" by (auto dest: map_of_SomeD)
    with assms show ?thesis by (auto simp: list_all_iff)
  qed
  then show "\<not> is_array (map_of (rev upd) ''name'')" and "\<not> is_array (map_of (rev upd) ''createdBy'')"
    by (cases "map_of (rev upd) ''name''"; cases "map_of (rev upd) ''createdBy''"; simp add: is_array_def)+
qed

lemma updateBook_conforms:
  assumes "conforms st" and "schema_update mg"
  shows "conforms (snd (updateBook mg req st))"
proof (cases "cast_update mg (bookId req) (body req)")
  case (Inl e)
  with assms(1) show ?thesis by (simp add: updateBook_def)
next
  case (Inr iu)
  obtain i upd where iu: "iu = (i, upd)" by (cases iu)
  from assms(2) Inr iu
  have upd: "list_all (\<lambda>kv. (fst kv = ''name'' \<or> fst kv = ''createdBy'') \<and> \<not> is_array (Some (snd kv))) upd"
    by (auto simp: schema_update_def)
  let ?f = "apply_update upd (clock st)"
  have id: "map_of (?f d) ''_id'' = map_of d ''_id''" for d
    by (simp add: map_of_apply_update schema_fields(1) [OF upd])
  have shape: "book_shape (?f d)" if "book_shape d" for d
    using that schema_fields(2,3) [OF upd]
    by (auto simp: book_shape_def has_oid_def map_of_apply_update schema_fields(1) [OF upd] is_array_def
          split: option.splits)
  show ?thesis
  proof (cases "replace_first (doc_matches ''_id'' (Eq (BOid i))) ?f (books st)")
    case None
    with assms(1) show ?thesis
      by (simp add: updateBook_def Inr iu findByIdAndUpdate_def)
  next
    case (Some r)
    obtain d' bs where r: "r = (d', bs)" by (cases r)
    from Some r have rf: "replace_first (doc_matches ''_id'' (Eq (BOid i))) ?f (books st) = Some (d', bs)"
      by simp
    have "map (\<lambda>d. map_of d ''_id'') bs = map (\<lambda>d. map_of d ''_id'') (books st)"
      using id rf by (rule replace_first_map [where g = "\<lambda>d. map_of d ''_id''"])
    moreover have "list_all book_shape bs"
    proof -
      have "list_all book_shape (books st)"
        using assms(1) by (simp add: conforms_def)
      with shape show ?thesis using rf by (rule replace_first_all)
    qed
    ultimately have "conforms (st\<lparr>books := bs\<rparr>)"
      using assms(1) by (simp add: conforms_def unique_ids_def)
    with assms(1) show ?thesis
      by (simp add: updateBook_def Inr iu findByIdAndUpdate_def rf)
  qed
qed

lemma traverse_all:
  "traverse f xs = Inr ys \<Longrightarrow> (\<And>x y. x \<in> set xs \<Longrightarrow> f x = Inr y \<Longrightarrow> P y) \<Longrightarrow> list_all P ys"
proof (induction xs arbitrary: ys)
  case Nil
  then show ?case by simp
next
  case (Cons x xs)
  from Cons.prems(1) obtain y zs where y: "f x = Inr y" and zs: "traverse f xs = Inr zs"
    and ys: "ys = y # zs"
    by (auto split: sum.splits)
  have "P y" using Cons.prems(2) [of x y] y by simp
  moreover have "list_all P zs"
    using zs Cons.prems(2) by (intro Cons.IH) auto
  ultimately show ?case by (simp add: ys)
qed

lemma sample_schema_update: "schema_update sample_mongoose"
proof -
  have "list_all (\<lambda>kv. (fst kv = ''name'' \<or> fst kv = ''createdBy'') \<and> \<not> is_array (Some (snd kv))) upd"
    if "sample_cast_update s b = Inr (i, upd)" for s b i upd
  proof -
    let ?kept = "filter (\<lambda>kv. fst kv = ''name'' \<or> fst kv = ''createdBy'') b"
    from that have "traverse sample_cast_field ?kept = Inr upd"
      by (auto simp: sample_cast_update_def split: sum.splits)
    then show ?thesis
    proof (rule traverse_all)
      fix x y assume "x \<in> set ?kept" and "sample_cast_field x = Inr y"
      then show "(fst y = ''name'' \<or> fst y = ''createdBy'') \<and> \<not> is_array (Some (snd y))"
        by (auto simp: sample_cast_field_def is_array_def split: bson.splits if_splits sum.splits)
    qed
  qed
  then show ?thesis
    by (simp add: schema_update_def sample_mongoose_def)
qed

lemma sample_ids_below: "ids_below sample_server"
  by (simp add: ids_below_def sample_server_def)

end
